theory Spec2Isabelle
  imports Main
begin

section \<open>Tokens and errors\<close>

text \<open>
  A token is the object \<^verbatim>\<open>{type, text, start, end}\<close> built by the lexer. Its \<^verbatim>\<open>type\<close> is
  one of the keys of \<^verbatim>\<open>Teacup.tokenDefinitions\<close>, or \<^verbatim>\<open>"prefix"\<close> once the prefix tagger has
  rewritten it; \<open>kind_name\<close> gives back the JavaScript string. The fields \<^verbatim>\<open>text\<close> and \<^verbatim>\<open>end\<close>
  are \<open>ttext\<close> and \<open>tend\<close>.
\<close>

datatype kind = Number | Open | Middle | Close | Infix | Word | Str | Comment | Prefix

fun kind_name :: "kind \<Rightarrow> string" where
  "kind_name Number = ''number''"
| "kind_name Open = ''open''"
| "kind_name Middle = ''middle''"
| "kind_name Close = ''close''"
| "kind_name Infix = ''infix''"
| "kind_name Word = ''word''"
| "kind_name Str = ''string''"
| "kind_name Comment = ''comment''"
| "kind_name Prefix = ''prefix''"

record token =
  type :: kind
  ttext :: string
  start :: nat
  tend :: nat

text \<open>
  Every \<^verbatim>\<open>throw\<close> of the source and every exception of the host is a value. \<open>Unmodelled\<close>
  marks host behaviour outside this model (coercions between unlike values, host methods,
  numbers that are not exact small integers); \<open>OutOfFuel\<close> says that the evaluator has
  reached its bound on nested calls.
\<close>

datatype error =
    SyntaxError string
  | ReferenceError string
  | Error string
  | TypeError
  | RangeError
  | Unmodelled
  | OutOfFuel

section \<open>Lexer\<close>

text \<open>
  The lexer is built from a table of regular expression fragments, one per token type, and
  joins them into one alternation \<^verbatim>\<open>(f1)|(f2)|...\<close>. A fragment is modelled by the function
  that gives the length of its match at the start of a text, given the character before
  (which \<^verbatim>\<open>\b\<close> looks at; \<open>None\<close> at the start of the input). Texts are lists of 8-bit
  characters, where JavaScript has UTF-16 code units.
\<close>

type_synonym fragment = "char option \<Rightarrow> string \<Rightarrow> nat option"

definition digit :: "char \<Rightarrow> bool" where
  "digit c \<longleftrightarrow> c \<in> set ''0123456789''"

definition wordchar :: "char \<Rightarrow> bool" where
  "wordchar c \<longleftrightarrow>
     c \<in> set ''abcdefghijklmnopqrstuvwxyzABCDEFGHIJKLMNOPQRSTUVWXYZ0123456789_''"

definition opchar :: "char \<Rightarrow> bool" where
  "opchar c \<longleftrightarrow> c \<in> set ''!@$%^&*|/?.:~+=<>-''"

definition newline :: char where
  "newline = CHR 0x0A"

definition dquote :: char where
  "dquote = CHR 0x22"

text \<open>
  \<^verbatim>\<open>\b(?:k1|k2|...)\b\<close> for keywords made of word characters: the character before is not a
  word character, the first keyword that is a prefix of the text and is not followed by a
  word character matches.
\<close>

definition keyword_at :: "string \<Rightarrow> string \<Rightarrow> bool" where
  "keyword_at s kw \<longleftrightarrow>
     take (length kw) s = kw \<and>
     (case drop (length kw) s of [] \<Rightarrow> True | c # _ \<Rightarrow> \<not> wordchar c)"

definition keyword_alt :: "string list \<Rightarrow> fragment" where
  "keyword_alt kws prev s =
     (if (case prev of None \<Rightarrow> False | Some c \<Rightarrow> wordchar c) then None
      else map_option length (find (keyword_at s) kws))"

text \<open>\<^verbatim>\<open>\d+(?:\.\d+)?(?:[eE][+-]?\d+)?\<close>\<close>

definition number_fraction :: "string \<Rightarrow> nat" where
  "number_fraction s =
     (case s of
        [] \<Rightarrow> 0
      | c # r \<Rightarrow> if c = CHR ''.'' \<and> takeWhile digit r \<noteq> [] then 1 + length (takeWhile digit r) else 0)"

definition number_exponent :: "string \<Rightarrow> nat" where
  "number_exponent s =
     (case s of
        [] \<Rightarrow> 0
      | e # r \<Rightarrow>
          if e \<in> set ''eE'' then
            (case r of
               [] \<Rightarrow> 0
             | sg # r' \<Rightarrow>
                 if sg \<in> set ''+-'' then
                   (if takeWhile digit r' \<noteq> [] then 2 + length (takeWhile digit r') else 0)
                 else
                   (if takeWhile digit r \<noteq> [] then 1 + length (takeWhile digit r) else 0))
          else 0)"

definition number_re :: fragment where
  "number_re prev s =
     (if takeWhile digit s = [] then None
      else
        let r1 = dropWhile digit s;
            frac = number_fraction r1;
            ex = number_exponent (drop frac r1)
        in Some (length (takeWhile digit s) + frac + ex))"

text \<open>\<^verbatim>\<open>[\(\[\{]|\b(?:let|for|if|begin)\b\<close>\<close>

definition open_re :: fragment where
  "open_re prev s =
     (case s of
        [] \<Rightarrow> None
      | c # _ \<Rightarrow>
          if c \<in> set ''([{'' then Some 1
          else keyword_alt [''let'', ''for'', ''if'', ''begin''] prev s)"

text \<open>\<^verbatim>\<open>\b(?:then|elif|else|in|do|when)\b\<close>\<close>

definition middle_re :: fragment where
  "middle_re prev s = keyword_alt [''then'', ''elif'', ''else'', ''in'', ''do'', ''when''] prev s"

text \<open>\<^verbatim>\<open>[\)\]\}]|\bend\b\<close>\<close>

definition close_re :: fragment where
  "close_re prev s =
     (case s of
        [] \<Rightarrow> None
      | c # _ \<Rightarrow> if c \<in> set '')]}'' then Some 1 else keyword_alt [''end''] prev s)"

text \<open>\<^verbatim>\<open>[,;\n]|[!@$%^&*|/?.:~+=<>-]+|\b(?:and|or|not)\b\<close>\<close>

definition infix_re :: fragment where
  "infix_re prev s =
     (case s of
        [] \<Rightarrow> None
      | c # _ \<Rightarrow>
          if c = CHR '','' \<or> c = CHR '';'' \<or> c = newline then Some 1
          else if takeWhile opchar s \<noteq> [] then Some (length (takeWhile opchar s))
          else keyword_alt [''and'', ''or'', ''not''] prev s)"

text \<open>\<^verbatim>\<open>\w+\<close>\<close>

definition word_re :: fragment where
  "word_re prev s =
     (if takeWhile wordchar s = [] then None else Some (length (takeWhile wordchar s)))"

text \<open>
  \<^verbatim>\<open>"(?:[^"]|\\.)*"\<close>: the first alternative of the group takes every character that is not
  a double quote, a backslash too, so a match ends at the first double quote after the
  opening one, and there is none when no double quote follows.
\<close>

definition string_re :: fragment where
  "string_re prev s =
     (case s of
        [] \<Rightarrow> None
      | c # r \<Rightarrow>
          if c = dquote \<and> dquote \<in> set r
          then Some (length (takeWhile (\<lambda>x. x \<noteq> dquote) r) + 2)
          else None)"

text \<open>\<^verbatim>\<open>#[^\n]*(?=\n|$)\<close>: after the longest run without a newline the lookahead holds.\<close>

definition comment_re :: fragment where
  "comment_re prev s =
     (case s of
        [] \<Rightarrow> None
      | c # r \<Rightarrow>
          if c = CHR ''#'' then Some (1 + length (takeWhile (\<lambda>x. x \<noteq> newline) r)) else None)"

definition Teacup_tokenDefinitions :: "(kind \<times> fragment) list" where
  "Teacup_tokenDefinitions =
     [(Number, number_re),
      (Open, open_re),
      (Middle, middle_re),
      (Close, close_re),
      (Infix, infix_re),
      (Word, word_re),
      (Str, string_re),
      (Comment, comment_re)]"

text \<open>
  The alternation tries the fragments in order at one position; the result is the index of
  the group that matched (from 0) and the length of the match.
\<close>

fun alternation :: "fragment list \<Rightarrow> nat \<Rightarrow> char option \<Rightarrow> string \<Rightarrow> (nat \<times> nat) option" where
  "alternation [] i prev s = None"
| "alternation (f # fs) i prev s =
     (case f prev s of Some n \<Rightarrow> Some (i, n) | None \<Rightarrow> alternation fs (Suc i) prev s)"

record lexer =
  re :: "char option \<Rightarrow> string \<Rightarrow> (nat \<times> nat) option"
  types :: "kind option list"

definition Lexer :: "(kind \<times> fragment) list \<Rightarrow> lexer" where
  "Lexer tokenDefinitions =
     \<lparr>re = alternation (map snd tokenDefinitions) 0,
      types = None # map (\<lambda>k. Some (fst k)) tokenDefinitions\<rparr>"

text \<open>
  \<^verbatim>\<open>text.split(this.re)\<close>: the pieces are the text before a match, then one entry for each
  group of the alternation (the matched text for the group that matched, \<^verbatim>\<open>undefined\<close> for
  the others), and so on, with the rest of the text last. \<open>gap\<close> is the text since the
  last match. No fragment matches the empty text, so a match has a first character \<open>c\<close> and
  the text after it is \<open>drop (n - 1) cs\<close>.
\<close>

fun split :: "lexer \<Rightarrow> char option \<Rightarrow> string \<Rightarrow> string \<Rightarrow> string option list" where
  "split lx prev gap [] = [Some gap]"
| "split lx prev gap (c # cs) =
     (case re lx prev (c # cs) of
        None \<Rightarrow> split lx (Some c) (gap @ [c]) cs
      | Some (g, n) \<Rightarrow>
          Some gap # (replicate (length (types lx) - 1) None)[g := Some (take n (c # cs))]
            @ split lx (Some (last (take n (c # cs)))) [] (drop (n - 1) cs))"

text \<open>
  The \<^verbatim>\<open>map\<close> of \<^verbatim>\<open>Lexer.prototype.process\<close> with its running \<^verbatim>\<open>pos\<close>; a piece becomes the
  object \<^verbatim>\<open>{type, text, start, end}\<close> whose type may be \<^verbatim>\<open>null\<close> and whose text may be
  \<^verbatim>\<open>undefined\<close>.
\<close>

type_synonym piece = "kind option \<times> string option \<times> nat \<times> nat"

fun pieces :: "kind option list \<Rightarrow> nat \<Rightarrow> nat \<Rightarrow> string option list \<Rightarrow> piece list" where
  "pieces tys i pos [] = []"
| "pieces tys i pos (tok # toks) =
     (tys ! (i mod length tys), tok, pos, pos + length (case tok of None \<Rightarrow> [] | Some s \<Rightarrow> s))
       # pieces tys (Suc i) (pos + length (case tok of None \<Rightarrow> [] | Some s \<Rightarrow> s)) toks"

fun keep :: "piece \<Rightarrow> token option" where
  "keep (Some k, Some s, b, e) =
     (if k \<noteq> Comment \<and> s \<noteq> [] then Some \<lparr>type = k, ttext = s, start = b, tend = e\<rparr> else None)"
| "keep _ = None"

definition Lexer_process :: "lexer \<Rightarrow> string \<Rightarrow> token list" where
  "Lexer_process lx txt = List.map_filter keep (pieces (types lx) 0 0 (split lx None [] txt))"

section \<open>Prefix operators\<close>

text \<open>
  \<^verbatim>\<open>tagPrefixOperators\<close>: one pass over the tokens with the variable \<^verbatim>\<open>prevType\<close>, which starts
  as the string \<^verbatim>\<open>"start"\<close> (here \<open>None\<close>) and afterwards holds the type a token had before
  it was rewritten.
\<close>

fun tagLoop :: "kind option \<Rightarrow> token list \<Rightarrow> token list" where
  "tagLoop prevType [] = []"
| "tagLoop prevType (t # ts) =
     (if prevType = None \<and> type t = Open then t # tagLoop (Some (type t)) ts
      else if type t = Infix \<and> (prevType = Some Infix \<or> prevType = Some Open)
      then t\<lparr>type := Prefix\<rparr> # tagLoop (Some (type t)) ts
      else t # tagLoop (Some (type t)) ts)"

definition tagPrefixOperators :: "token list \<Rightarrow> token list" where
  "tagPrefixOperators tokens = tagLoop None tokens"

section \<open>Parser\<close>

record prio =
  left :: int
  right :: int

type_synonym priorities = "(string \<times> prio) list"

definition getPrio :: "priorities \<Rightarrow> token \<Rightarrow> error + prio" where
  "getPrio ps t =
     (case map_of ps (kind_name (type t) @ '':'' @ ttext t) of
        Some x \<Rightarrow> Inr x
      | None \<Rightarrow>
         (case map_of ps (ttext t) of
            Some x \<Rightarrow> Inr x
          | None \<Rightarrow>
             (case map_of ps (''type:'' @ kind_name (type t)) of
                Some x \<Rightarrow> Inr x
              | None \<Rightarrow> Inl (SyntaxError (''Unknown operator: '' @ ttext t)))))"

datatype order_result = Done | Sign int

definition order :: "priorities \<Rightarrow> token option \<Rightarrow> token option \<Rightarrow> error + order_result" where
  "order ps a b =
     (case (a, b) of
        (None, None) \<Rightarrow> Inr Done
      | (None, Some _) \<Rightarrow> Inr (Sign 1)
      | (Some _, None) \<Rightarrow> Inr (Sign (- 1))
      | (Some ta, Some tb) \<Rightarrow>
         (case getPrio ps ta of
            Inl e \<Rightarrow> Inl e
          | Inr pa \<Rightarrow>
             (case getPrio ps tb of
                Inl e \<Rightarrow> Inl e
              | Inr pb \<Rightarrow> Inr (Sign (sgn (right pb - left pa))))))"

text \<open>
  The syntax tree. A leaf is the token itself; an inner node is the object
  \<^verbatim>\<open>{type, args, ops, start, end}\<close> that \<^verbatim>\<open>finalize\<close> builds, whose \<^verbatim>\<open>type\<close> is the signature.
\<close>

datatype node =
    Token token
  | Node (ntype: string) (args: "node list") (ops: "token list") (nstart: nat) (nend: nat)

text \<open>An operand position of a handle holds \<^verbatim>\<open>null\<close>, \<^verbatim>\<open>undefined\<close> or a tree.\<close>

datatype slot = Null | Undefined | Elem node

text \<open>
  A handle is the array \<^verbatim>\<open>[x0, op0, x1, op1, ...]\<close>, kept here as the list of its
  (operand, operator) pairs; an operator position holds a token or \<^verbatim>\<open>undefined\<close> (only in
  the bottom handle \<^verbatim>\<open>[null, left]\<close> the parser starts with). \<^verbatim>\<open>finalize\<close> receives the
  pairs together with the closing operand pushed last, so the array has length
  \<open>2 * length pairs + 1\<close>.
\<close>

type_synonym handle = "(slot \<times> token option) list"

fun slot_start :: "node \<Rightarrow> nat" where
  "slot_start (Token t) = start t"
| "slot_start (Node _ _ _ s _) = s"

fun slot_end :: "node \<Rightarrow> nat" where
  "slot_end (Token t) = tend t"
| "slot_end (Node _ _ _ _ e) = e"

definition operand_mark :: "slot \<Rightarrow> string" where
  "operand_mark x = (if x = Null then ''_'' else ''E'')"

fun join :: "string \<Rightarrow> string list \<Rightarrow> string" where
  "join sep [] = []"
| "join sep [x] = x"
| "join sep (x # y # ys) = x @ sep @ join sep (y # ys)"

fun signature_parts :: "(slot \<times> token) list \<Rightarrow> slot \<Rightarrow> string list" where
  "signature_parts [] z = [operand_mark z]"
| "signature_parts ((x, op) # ps) z = operand_mark x # ttext op # signature_parts ps z"

fun operands_of :: "slot list \<Rightarrow> node list" where
  "operands_of [] = []"
| "operands_of (Elem n # xs) = n # operands_of xs"
| "operands_of (_ # xs) = operands_of xs"

fun defined_ops :: "handle \<Rightarrow> (slot \<times> token) list option" where
  "defined_ops [] = Some []"
| "defined_ops ((x, None) # ps) = None"
| "defined_ops ((x, Some op) # ps) = map_option ((#) (x, op)) (defined_ops ps)"

definition truthy_slot :: "slot \<Rightarrow> bool" where
  "truthy_slot x = (case x of Elem _ \<Rightarrow> True | _ \<Rightarrow> False)"

definition op_slot :: "token option \<Rightarrow> slot" where
  "op_slot op = (case op of None \<Rightarrow> Undefined | Some t \<Rightarrow> Elem (Token t))"

definition finalize :: "handle \<Rightarrow> slot \<Rightarrow> error + slot" where
  "finalize pairs z =
     (if length pairs = 1 \<and> \<not> truthy_slot (fst (hd pairs)) \<and> \<not> truthy_slot z
      then Inr (op_slot (snd (hd pairs)))
      else
        (case defined_ops pairs of
           None \<Rightarrow> Inl TypeError
         | Some [] \<Rightarrow>
            (case z of
               Elem n \<Rightarrow> Inr (Elem (Node (operand_mark z) [n] [] (slot_start n) (slot_end n)))
             | _ \<Rightarrow> Inl TypeError)
         | Some ((x0, op0) # ps) \<Rightarrow>
             Inr (Elem (Node
               (join '' '' (signature_parts ((x0, op0) # ps) z))
               (operands_of (map fst ((x0, op0) # ps) @ [z]))
               (map snd ((x0, op0) # ps))
               (case x0 of Elem n \<Rightarrow> slot_start n | _ \<Rightarrow> start op0)
               (case z of Elem n \<Rightarrow> slot_end n | _ \<Rightarrow> tend (snd (last ((x0, op0) # ps))))))))"

text \<open>
  \<^verbatim>\<open>Parser.prototype.process\<close>. \<open>tokens\<close> is what is left of the copied array, \<open>next\<close> its
  \<^verbatim>\<open>shift\<close>; the top of \<open>stack\<close> is the head of the list. Popping an empty stack gives
  \<^verbatim>\<open>undefined\<close>, whose \<^verbatim>\<open>length\<close> cannot be read. \<^verbatim>\<open>Math.sign\<close> of a difference of integers is
  1, -1 or 0, so the last branch is \<^verbatim>\<open>case 0\<close>. The variables \<^verbatim>\<open>left\<close> and \<^verbatim>\<open>right\<close> are \<open>leftTok\<close>
  and \<open>rightTok\<close>.
\<close>

definition "next" :: "token list \<Rightarrow> token option \<times> token list" where
  "next tokens = (case tokens of [] \<Rightarrow> (None, []) | t # ts \<Rightarrow> (Some t, ts))"

definition last_op :: "handle \<Rightarrow> token option" where
  "last_op current = (case current of [] \<Rightarrow> None | _ \<Rightarrow> snd (last current))"

function parse_loop ::
  "priorities \<Rightarrow> (handle \<Rightarrow> slot \<Rightarrow> error + slot) \<Rightarrow> token list \<Rightarrow> handle list \<Rightarrow> slot \<Rightarrow>
   token option \<Rightarrow> token option \<Rightarrow> handle \<Rightarrow> error + slot" where
  "parse_loop ps fin tokens stack middle leftTok rightTok current =
     (case order ps leftTok rightTok of
        Inl e \<Rightarrow> Inl e
      | Inr Done \<Rightarrow> Inr middle
      | Inr (Sign s) \<Rightarrow>
          if s = 1 then
            parse_loop ps fin (snd (next tokens)) (current # stack) Null
              rightTok (fst (next tokens)) [(middle, rightTok)]
          else if s = - 1 then
            (case fin current middle of
               Inl e \<Rightarrow> Inl e
             | Inr m \<Rightarrow>
                (case stack of
                   [] \<Rightarrow> Inl TypeError
                 | c # stack' \<Rightarrow> parse_loop ps fin tokens stack' m (last_op c) rightTok c))
          else
            parse_loop ps fin (snd (next tokens)) stack Null
              rightTok (fst (next tokens)) (current @ [(middle, rightTok)]))"
  by pat_completeness auto

termination parse_loop
proof (relation "measure (\<lambda>(ps, fin, tokens, stack, middle, leftTok, rightTok, current).
          2 * (length tokens + (case rightTok of None \<Rightarrow> 0 | Some _ \<Rightarrow> 1)) + length stack)",
       goal_cases)
  case 1
  show ?case by simp
next
  case (2 ps fin tokens stack middle leftTok rightTok current b s)
  then show ?case
    by (auto simp: next_def order_def split: list.splits option.splits sum.splits)
next
  case (3 ps fin tokens stack middle leftTok rightTok current b s m c stack')
  then show ?case by simp
next
  case (4 ps fin tokens stack middle leftTok rightTok current b s)
  then show ?case
    by (auto simp: next_def order_def split: list.splits option.splits sum.splits)
qed

definition Parser_process ::
  "priorities \<Rightarrow> (handle \<Rightarrow> slot \<Rightarrow> error + slot) \<Rightarrow> token list \<Rightarrow> error + slot" where
  "Parser_process ps fin tokens =
     parse_loop ps fin (snd (next tokens)) [] Null None (fst (next tokens)) [(Null, None)]"

subsection \<open>The priorities of Teacup\<close>

definition lassoc :: "int \<Rightarrow> prio" where
  "lassoc n = \<lparr>left = n, right = n - 1\<rparr>"

definition rassoc :: "int \<Rightarrow> prio" where
  "rassoc n = \<lparr>left = n, right = n + 1\<rparr>"

definition xassoc :: "int \<Rightarrow> prio" where
  "xassoc n = \<lparr>left = n, right = n\<rparr>"

definition prefix :: "int \<Rightarrow> prio" where
  "prefix n = \<lparr>left = n, right = 10004\<rparr>"

definition suffix :: "int \<Rightarrow> prio" where
  "suffix n = \<lparr>left = 10005, right = n\<rparr>"

definition Teacup_priorities :: priorities where
  "Teacup_priorities =
     [(''type:open'', prefix 5),
      (''type:middle'', xassoc 5),
      (''type:close'', suffix 5),
      ([CHR 0x0A], xassoc 15),
      ('';'', xassoc 15),
      ('','', xassoc 25),
      (''='', rassoc 35),
      (''->'', rassoc 35),
      (''not'', prefix 105),
      (''or'', lassoc 115),
      (''and'', lassoc 125),
      (''>'', xassoc 205),
      (''<'', xassoc 205),
      (''>='', xassoc 205),
      (''<='', xassoc 205),
      (''=='', xassoc 205),
      (''..'', xassoc 305),
      (''+'', lassoc 505),
      (''-'', lassoc 505),
      (''prefix:-'', prefix 605),
      (''*'', lassoc 605),
      (''/'', lassoc 605),
      (''%'', lassoc 605),
      (''^'', rassoc 705),
      (''type:infix'', xassoc 905),
      (''type:prefix'', prefix 905),
      (''.'', \<lparr>left = 15005, right = 1004\<rparr>),
      (''type:word'', xassoc 20005),
      (''type:number'', xassoc 20005),
      (''type:string'', xassoc 20005)]"

section \<open>Values and environments\<close>

text \<open>
  The values of the interpreter are JavaScript values. A number is kept when it is an
  integer that a double holds exactly (at most \<open>2^53\<close> in absolute value), and \<^verbatim>\<open>NaN\<close> is a
  value of its own; the sign of zero is not kept, which only a division by zero could
  observe. Whatever would leave this range (a fraction, a division by zero, a larger
  number) is \<open>Unmodelled\<close>.

  A function value is a function of the root environment, a closure made by
  \<^verbatim>\<open>buildFunction\<close> (its parameters, its body and the environment it closes over), or the
  result of \<^verbatim>\<open>bind\<close> on one of these.
\<close>

datatype builtin =
    Add | Sub | Neg | Mul | Div | Mod | Pow | Lt | Gt | Le | Ge | Eq | Range | Not | And | Or | Log

datatype fn =
    Builtin builtin
  | Closure "node list" node "nat option"
  | Bound fn

datatype val =
    VUndefined
  | VNull
  | VBool bool
  | VNum int
  | VNaN
  | VStr string
  | VList "val list"
  | VFun fn
  | VMath

text \<open>
  Environments are objects linked by their prototype, and \<^verbatim>\<open>let\<close> writes into one after
  closures have captured it, so they live in a store: an environment is an index into the
  list of frames, \<open>proto\<close> is the prototype (\<open>None\<close> for \<^verbatim>\<open>Object.create(null)\<close>) and \<open>vars\<close> the
  own properties, the latest write first. An environment argument that is \<^verbatim>\<open>undefined\<close> is
  \<open>None\<close>.
\<close>

record frame =
  proto :: "nat option"
  vars :: "(string \<times> val) list"

type_synonym store = "frame list"

type_synonym 'a result = "error + ('a \<times> store)"

definition andThen :: "'a result \<Rightarrow> ('a \<Rightarrow> store \<Rightarrow> 'b result) \<Rightarrow> 'b result" where
  "andThen r f = (case r of Inl e \<Rightarrow> Inl e | Inr (x, st) \<Rightarrow> f x st)"

text \<open>
  \<^verbatim>\<open>text in env\<close> and \<^verbatim>\<open>env[text]\<close> walk the prototype chain. A frame is created after its
  prototype, so the chain goes down the indices.
\<close>

function lookup :: "store \<Rightarrow> nat \<Rightarrow> string \<Rightarrow> val option" where
  "lookup st r k =
     (if r < length st then
        (case map_of (vars (st ! r)) k of
           Some v \<Rightarrow> Some v
         | None \<Rightarrow>
            (case proto (st ! r) of
               None \<Rightarrow> None
             | Some p \<Rightarrow> if p < r then lookup st p k else None))
      else None)"
  by pat_completeness auto

termination lookup
  by (relation "measure (\<lambda>(st, r, k). r)") auto

definition resolve :: "nat option \<Rightarrow> string \<Rightarrow> store \<Rightarrow> val result" where
  "resolve env txt st =
     (case env of
        None \<Rightarrow> Inl TypeError
      | Some r \<Rightarrow>
         (case lookup st r txt of
            Some v \<Rightarrow> Inr (v, st)
          | None \<Rightarrow> Inl (ReferenceError (''Undefined variable: '' @ [CHR 0x27] @ txt @ [CHR 0x27] @ ''.''))))"

definition Object_create :: "nat option \<Rightarrow> store \<Rightarrow> nat result" where
  "Object_create env st =
     (case env of
        None \<Rightarrow> Inl TypeError
      | Some p \<Rightarrow> Inr (length st, st @ [\<lparr>proto = Some p, vars = []\<rparr>]))"

definition assign :: "nat \<Rightarrow> string \<Rightarrow> val \<Rightarrow> store \<Rightarrow> store" where
  "assign r k v st = st[r := (st ! r)\<lparr>vars := (k, v) # vars (st ! r)\<rparr>]"

definition truthy :: "val \<Rightarrow> bool" where
  "truthy v =
     (case v of
        VUndefined \<Rightarrow> False
      | VNull \<Rightarrow> False
      | VBool b \<Rightarrow> b
      | VNum n \<Rightarrow> n \<noteq> 0
      | VNaN \<Rightarrow> False
      | VStr s \<Rightarrow> s \<noteq> []
      | _ \<Rightarrow> True)"

subsection \<open>The functions of the root environment\<close>

text \<open>\<^verbatim>\<open>ToNumber\<close> on the values that have a number without parsing: \<open>None\<close> is \<^verbatim>\<open>NaN\<close>.\<close>

definition toNumber :: "val \<Rightarrow> error + int option" where
  "toNumber v =
     (case v of
        VUndefined \<Rightarrow> Inr None
      | VNull \<Rightarrow> Inr (Some 0)
      | VBool b \<Rightarrow> Inr (Some (if b then 1 else 0))
      | VNum n \<Rightarrow> Inr (Some n)
      | VNaN \<Rightarrow> Inr None
      | _ \<Rightarrow> Inl Unmodelled)"

definition num :: "int \<Rightarrow> error + val" where
  "num n = (if \<bar>n\<bar> \<le> 2 ^ 53 then Inr (VNum n) else Inl Unmodelled)"

definition arith :: "(int \<Rightarrow> int \<Rightarrow> error + val) \<Rightarrow> val \<Rightarrow> val \<Rightarrow> error + val" where
  "arith f a b =
     (case toNumber a of
        Inl e \<Rightarrow> Inl e
      | Inr x \<Rightarrow>
         (case toNumber b of
            Inl e \<Rightarrow> Inl e
          | Inr y \<Rightarrow>
             (case (x, y) of
                (Some m, Some n) \<Rightarrow> f m n
              | _ \<Rightarrow> Inr VNaN)))"

definition compare :: "(int \<Rightarrow> int \<Rightarrow> bool) \<Rightarrow> val \<Rightarrow> val \<Rightarrow> error + val" where
  "compare f a b =
     (case toNumber a of
        Inl e \<Rightarrow> Inl e
      | Inr x \<Rightarrow>
         (case toNumber b of
            Inl e \<Rightarrow> Inl e
          | Inr y \<Rightarrow>
             (case (x, y) of
                (Some m, Some n) \<Rightarrow> Inr (VBool (f m n))
              | _ \<Rightarrow> Inr (VBool False))))"

text \<open>The remainder of JavaScript has the sign of the dividend.\<close>

definition js_rem :: "int \<Rightarrow> int \<Rightarrow> int" where
  "js_rem m n = sgn m * (\<bar>m\<bar> mod \<bar>n\<bar>)"

definition is_nullish :: "val \<Rightarrow> bool" where
  "is_nullish v \<longleftrightarrow> v = VUndefined \<or> v = VNull"

definition loose_eq :: "val \<Rightarrow> val \<Rightarrow> error + val" where
  "loose_eq a b =
     (if is_nullish a \<or> is_nullish b then Inr (VBool (is_nullish a \<and> is_nullish b))
      else
        (case (a, b) of
           (VStr s, VStr t) \<Rightarrow> Inr (VBool (s = t))
         | _ \<Rightarrow> compare (=) a b))"

text \<open>
  The functions of \<^verbatim>\<open>Teacup.rootEnv\<close> on the values of their first two parameters, a missing
  argument being \<^verbatim>\<open>undefined\<close>. \<^verbatim>\<open>Math.pow\<close> is taken to be exact on integers. A range is the
  list \<^verbatim>\<open>start, ..., end - 1\<close>; \<^verbatim>\<open>Array(n)\<close> throws a \<^verbatim>\<open>RangeError\<close> for a negative length, and
  lengths from \<open>2^16\<close> on, which \<^verbatim>\<open>Array.apply\<close> may refuse, are left out. \<^verbatim>\<open>and\<close> and \<^verbatim>\<open>or\<close> call
  their arguments: called with values, as they are through \<^verbatim>\<open>bind\<close> or without arguments,
  they throw unless the first one is a function. \<^verbatim>\<open>log\<close> writes to the page.
\<close>

definition arg :: "val list \<Rightarrow> nat \<Rightarrow> val" where
  "arg vs i = (if i < length vs then vs ! i else VUndefined)"

definition apply_builtin :: "builtin \<Rightarrow> val list \<Rightarrow> error + val" where
  "apply_builtin b vs =
     (let a = arg vs 0; c = arg vs 1 in
      case b of
        Add \<Rightarrow> arith (\<lambda>m n. num (m + n)) a c
      | Sub \<Rightarrow> arith (\<lambda>m n. num (m - n)) a c
      | Neg \<Rightarrow> arith (\<lambda>m n. num (- m)) a (VNum 0)
      | Mul \<Rightarrow> arith (\<lambda>m n. num (m * n)) a c
      | Div \<Rightarrow> arith (\<lambda>m n. if n \<noteq> 0 \<and> n dvd m then num (m div n) else Inl Unmodelled) a c
      | Mod \<Rightarrow> arith (\<lambda>m n. if n = 0 then Inr VNaN else num (js_rem m n)) a c
      | Pow \<Rightarrow>
          (case toNumber c of
             Inl e \<Rightarrow> Inl e
           | Inr None \<Rightarrow> (case toNumber a of Inl e \<Rightarrow> Inl e | Inr _ \<Rightarrow> Inr VNaN)
           | Inr (Some n) \<Rightarrow>
               if n = 0 then (case toNumber a of Inl e \<Rightarrow> Inl e | Inr _ \<Rightarrow> Inr (VNum 1))
               else arith (\<lambda>m n. if 0 \<le> n then num (m ^ nat n) else Inl Unmodelled) a c)
      | Lt \<Rightarrow> compare (<) a c
      | Gt \<Rightarrow> compare (>) a c
      | Le \<Rightarrow> compare (\<le>) a c
      | Ge \<Rightarrow> compare (\<ge>) a c
      | Eq \<Rightarrow> loose_eq a c
      | Range \<Rightarrow>
          (case (a, c) of
             (VNum s, VNum e) \<Rightarrow>
               if e - s < 0 then Inl RangeError
               else if e - s < 2 ^ 16 then Inr (VList (map (\<lambda>i. VNum (int i + s)) [0..<nat (e - s)]))
               else Inl Unmodelled
           | _ \<Rightarrow> Inl Unmodelled)
      | Not \<Rightarrow> Inr (VBool (\<not> truthy a))
      | And \<Rightarrow> (case a of VFun _ \<Rightarrow> Inl Unmodelled | _ \<Rightarrow> Inl TypeError)
      | Or \<Rightarrow> (case a of VFun _ \<Rightarrow> Inl Unmodelled | _ \<Rightarrow> Inl TypeError)
      | Log \<Rightarrow> Inl Unmodelled)"

definition Teacup_rootEnv :: "(string \<times> val) list" where
  "Teacup_rootEnv =
     [(''true'', VBool True),
      (''false'', VBool False),
      (''null'', VNull),
      (''+'', VFun (Builtin Add)),
      (''-'', VFun (Builtin Sub)),
      (''prefix:-'', VFun (Builtin Neg)),
      (''*'', VFun (Builtin Mul)),
      (''/'', VFun (Builtin Div)),
      (''%'', VFun (Builtin Mod)),
      (''^'', VFun (Builtin Pow)),
      (''<'', VFun (Builtin Lt)),
      (''>'', VFun (Builtin Gt)),
      (''<='', VFun (Builtin Le)),
      (''>='', VFun (Builtin Ge)),
      (''=='', VFun (Builtin Eq)),
      (''..'', VFun (Builtin Range)),
      (''prefix:not'', VFun (Builtin Not)),
      (''and'', VFun (Builtin And)),
      (''or'', VFun (Builtin Or)),
      (''Math'', VMath),
      (''log'', VFun (Builtin Log))]"

definition makeEnvironment :: "(string \<times> val) list list \<Rightarrow> store" where
  "makeEnvironment bindingGroups = [\<lparr>proto = None, vars = concat (rev bindingGroups)\<rparr>]"

section \<open>Utilities on nodes\<close>

text \<open>
  \<^verbatim>\<open>node.type\<close> is the token type of a leaf and the signature of an inner node;
  \<^verbatim>\<open>node.args\<close> and \<^verbatim>\<open>node.text\<close> are \<^verbatim>\<open>undefined\<close> where the object has no such property.
\<close>

fun node_type :: "node \<Rightarrow> string" where
  "node_type (Token t) = kind_name (type t)"
| "node_type (Node sig _ _ _ _) = sig"

fun node_text :: "node \<Rightarrow> string option" where
  "node_text (Token t) = Some (ttext t)"
| "node_text (Node _ _ _ _ _) = None"

fun node_args :: "node \<Rightarrow> node list" where
  "node_args (Token t) = []"
| "node_args (Node _ as _ _ _) = as"

text \<open>A guard is a string, compared with \<^verbatim>\<open>===\<close>, or a regular expression, given by its language.\<close>

datatype guard = Lit string | Rx "string \<Rightarrow> bool"

definition matches :: "guard \<Rightarrow> string \<Rightarrow> bool" where
  "matches g s = (case g of Lit l \<Rightarrow> l = s | Rx p \<Rightarrow> p s)"

definition extractArgs :: "guard \<Rightarrow> node \<Rightarrow> node list option" where
  "extractArgs g node = (if matches g (node_type node) then Some (node_args node) else None)"

definition EU :: "char \<Rightarrow> bool" where
  "EU c \<longleftrightarrow> c = CHR ''E'' \<or> c = CHR ''_''"

text \<open>\<^verbatim>\<open>/^[E_]( [;,\n] [E_])+$/\<close>\<close>

fun list_groups :: "string \<Rightarrow> bool" where
  "list_groups [] = True"
| "list_groups (a # b # c # d # rest) =
     (a = CHR '' '' \<and> (b = CHR '';'' \<or> b = CHR '','' \<or> b = newline) \<and> c = CHR '' '' \<and> EU d
      \<and> list_groups rest)"
| "list_groups _ = False"

definition list_sig :: "string \<Rightarrow> bool" where
  "list_sig s = (case s of [] \<Rightarrow> False | m # rest \<Rightarrow> EU m \<and> rest \<noteq> [] \<and> list_groups rest)"

text \<open>
  \<^verbatim>\<open>/^[E_] [^ ]+ [E_]$/\<close>: what stands between the first two and the last two characters is
  the operator.
\<close>

definition inner :: "string \<Rightarrow> string" where
  "inner s = take (length s - 4) (drop 2 s)"

definition call_sig :: "string \<Rightarrow> bool" where
  "call_sig s \<longleftrightarrow>
     5 \<le> length s \<and> EU (s ! 0) \<and> s ! 1 = CHR '' '' \<and> CHR '' '' \<notin> set (inner s) \<and>
     s ! (length s - 2) = CHR '' '' \<and> EU (s ! (length s - 1))"

text \<open>\<^verbatim>\<open>/^E \( [E_] \) _$/\<close>\<close>

definition apply_sig :: "string \<Rightarrow> bool" where
  "apply_sig s \<longleftrightarrow> s = ''E ( E ) _'' \<or> s = ''E ( _ ) _''"

text \<open>\<^verbatim>\<open>/^[E_] ([!@#$%^&*+\/?<>=.-]+|and|or|not) E$/\<close>\<close>

definition operator_sig :: "string \<Rightarrow> bool" where
  "operator_sig s \<longleftrightarrow>
     5 \<le> length s \<and> EU (s ! 0) \<and> s ! 1 = CHR '' '' \<and>
     s ! (length s - 2) = CHR '' '' \<and> s ! (length s - 1) = CHR ''E'' \<and>
     ((\<forall>c \<in> set (inner s). c \<in> set ''!@#$%^&*+/?<>=.-'') \<or>
      inner s = ''and'' \<or> inner s = ''or'' \<or> inner s = ''not'')"

text \<open>
  \<^verbatim>\<open>/^_ if E then E( elif E then E)*( else E)? end _$/\<close>. The three pieces have 13, 14 and 7
  characters and the end has 6, so the length of the signature says how many
  \<^verbatim>\<open>elif\<close> there are and whether there is an \<^verbatim>\<open>else\<close>.
\<close>

definition if_sig :: "string \<Rightarrow> bool" where
  "if_sig s \<longleftrightarrow>
     (19 \<le> length s \<and>
        s = ''_ if E then E'' @ concat (replicate ((length s - 19) div 14) '' elif E then E'')
              @ '' end _'') \<or>
     (26 \<le> length s \<and>
        s = ''_ if E then E'' @ concat (replicate ((length s - 26) div 14) '' elif E then E'')
              @ '' else E'' @ '' end _'')"

text \<open>\<^verbatim>\<open>/[,;\n]/\<close>\<close>

definition sequence_sig :: "string \<Rightarrow> bool" where
  "sequence_sig s \<longleftrightarrow> (\<exists>c \<in> set s. c = CHR '','' \<or> c = CHR '';'' \<or> c = newline)"

text \<open>\<^verbatim>\<open>/^(word|infix)$/\<close>\<close>

definition variable_sig :: "string \<Rightarrow> bool" where
  "variable_sig s \<longleftrightarrow> s = ''word'' \<or> s = ''infix''"

text \<open>
  \<^verbatim>\<open>unparenthesize\<close> gives \<^verbatim>\<open>res[0]\<close>, which is \<^verbatim>\<open>undefined\<close> (\<open>None\<close>) for a node of that
  signature without arguments; \<^verbatim>\<open>getList\<close> reads \<^verbatim>\<open>node.type\<close> of what it is given.
\<close>

definition unparenthesize :: "node \<Rightarrow> node option" where
  "unparenthesize node =
     (case extractArgs (Lit ''_ ( E ) _'') node of
        Some res \<Rightarrow> (case res of [] \<Rightarrow> None | x # _ \<Rightarrow> Some x)
      | None \<Rightarrow> Some node)"

definition getList :: "node option \<Rightarrow> error + node list" where
  "getList n =
     (case n of
        None \<Rightarrow> Inl TypeError
      | Some node \<Rightarrow>
         (case extractArgs (Rx list_sig) node of
            Some as \<Rightarrow> Inr as
          | None \<Rightarrow> Inr [node]))"

text \<open>
  \<^verbatim>\<open>normalizeCall\<close> returns \<^verbatim>\<open>null\<close> (\<open>None\<close>) for a node that is not a call. A node without
  operators under the first guard has \<^verbatim>\<open>undefined\<close> for callee, which none of the callers
  can use: the error is raised here.
\<close>

definition normalizeCall :: "node \<Rightarrow> error + (node \<times> node list) option" where
  "normalizeCall node =
     (case extractArgs (Rx call_sig) node of
        Some as \<Rightarrow>
          (case node of
             Node _ _ (op # _) _ _ \<Rightarrow> Inr (Some (Token op, as))
           | _ \<Rightarrow> Inl TypeError)
      | None \<Rightarrow>
         (case extractArgs (Rx apply_sig) node of
            Some as \<Rightarrow>
              (case as of
                 f # x # _ \<Rightarrow>
                   (case getList (Some x) of Inl e \<Rightarrow> Inl e | Inr xs \<Rightarrow> Inr (Some (f, xs)))
               | _ \<Rightarrow> Inl TypeError)
          | None \<Rightarrow> Inr None))"

text \<open>
  \<^verbatim>\<open>normalizeAssignment\<close>: the target, the parameters of a function definition (\<open>None\<close> for
  \<^verbatim>\<open>null\<close>), the expression. The strict \<^verbatim>\<open>extractArgs\<close> throws for another signature.
\<close>

definition normalizeAssignment :: "node \<Rightarrow> error + (node \<times> node list option \<times> node)" where
  "normalizeAssignment node =
     (case extractArgs (Lit ''E = E'') node of
        None \<Rightarrow>
          Inl (Error (''Expected '' @ [CHR 0x27] @ ''E = E'' @ [CHR 0x27] @ '', got ''
                       @ [CHR 0x27] @ node_type node @ [CHR 0x27]))
      | Some lr \<Rightarrow>
         (case lr of
            l # r # _ \<Rightarrow>
              (case normalizeCall l of
                 Inl e \<Rightarrow> Inl e
               | Inr (Some (f, as)) \<Rightarrow> Inr (f, Some as, r)
               | Inr None \<Rightarrow> Inr (l, None, r))
          | _ \<Rightarrow> Inl TypeError))"

section \<open>Interpreter\<close>

text \<open>
  A handler is called with the interpreter as \<^verbatim>\<open>this\<close>; what it uses of it is \<^verbatim>\<open>this.eval\<close>,
  here the parameter \<open>ev\<close>. It receives the node, the environment and the arguments that
  \<^verbatim>\<open>extractArgs\<close> found; a parameter for which the node has no argument is \<^verbatim>\<open>undefined\<close>.
\<close>

type_synonym evaluator = "node \<Rightarrow> nat option \<Rightarrow> store \<Rightarrow> val result"

type_synonym func = "evaluator \<Rightarrow> node \<Rightarrow> nat option \<Rightarrow> node list \<Rightarrow> store \<Rightarrow> val result"

record handler =
  key :: guard
  func :: func

text \<open>\<^verbatim>\<open>this.eval(x, env)\<close> for a parameter \<open>x\<close> that may be \<^verbatim>\<open>undefined\<close>.\<close>

definition eval_param :: "evaluator \<Rightarrow> node option \<Rightarrow> nat option \<Rightarrow> store \<Rightarrow> val result" where
  "eval_param ev x env st = (case x of None \<Rightarrow> Inl TypeError | Some n \<Rightarrow> ev n env st)"

definition param :: "node list \<Rightarrow> nat \<Rightarrow> node option" where
  "param as i = (if i < length as then Some (as ! i) else None)"

text \<open>
  \<^verbatim>\<open>getField\<close>. Of the properties of host objects, the elements and the length of a list
  are modelled. A function found in a field is bound to the object.
\<close>

definition getField :: "val \<Rightarrow> val \<Rightarrow> error + val" where
  "getField obj field =
     (case obj of
        VUndefined \<Rightarrow> Inl TypeError
      | VNull \<Rightarrow> Inl TypeError
      | VList xs \<Rightarrow>
         (case field of
            VNum i \<Rightarrow>
              if 0 \<le> i \<and> i < int (length xs) then
                (case xs ! nat i of VFun f \<Rightarrow> Inr (VFun (Bound f)) | v \<Rightarrow> Inr v)
              else Inr VUndefined
          | VStr s \<Rightarrow> if s = ''length'' then Inr (VNum (int (length xs))) else Inl Unmodelled
          | _ \<Rightarrow> Inl Unmodelled)
      | _ \<Rightarrow> Inl Unmodelled)"

text \<open>
  \<^verbatim>\<open>variableBinder(expr, env)(value)\<close>: the check of the target, then the write into the
  environment.
\<close>

definition variableBinder :: "node \<Rightarrow> nat \<Rightarrow> val \<Rightarrow> store \<Rightarrow> error + store" where
  "variableBinder expr env v st =
     (case expr of
        Token t \<Rightarrow>
          if type t \<noteq> Word \<and> type t \<noteq> Infix \<and> type t \<noteq> Prefix
          then Inl (SyntaxError ''Invalid variable declaration.'')
          else Inr (assign env ((if type t = Prefix then ''prefix:'' else '''') @ ttext t) v st)
      | Node _ _ _ _ _ \<Rightarrow> Inl (SyntaxError ''Invalid variable declaration.''))"

text \<open>
  Calling the function that \<^verbatim>\<open>buildFunction\<close> made: a new environment under the captured
  one, each parameter bound to the next argument (\<^verbatim>\<open>undefined\<close> when they run out), then
  the body.
\<close>

fun bind_params :: "node list \<Rightarrow> nat \<Rightarrow> val list \<Rightarrow> store \<Rightarrow> error + store" where
  "bind_params [] newEnv arguments st = Inr st"
| "bind_params (decl # decls) newEnv arguments st =
     (case variableBinder decl newEnv (arg arguments 0) st of
        Inl e \<Rightarrow> Inl e
      | Inr st' \<Rightarrow> bind_params decls newEnv (tl arguments) st')"

fun call :: "evaluator \<Rightarrow> fn \<Rightarrow> val list \<Rightarrow> store \<Rightarrow> val result" where
  "call ev (Builtin b) arguments st =
     (case apply_builtin b arguments of Inl e \<Rightarrow> Inl e | Inr v \<Rightarrow> Inr (v, st))"
| "call ev (Closure decls body env) arguments st =
     andThen (Object_create env st) (\<lambda>newEnv st1.
       case bind_params decls newEnv arguments st1 of
         Inl e \<Rightarrow> Inl e
       | Inr st2 \<Rightarrow> ev body (Some newEnv) st2)"
| "call ev (Bound f) arguments st = call ev f arguments st"

definition call_val :: "evaluator \<Rightarrow> val \<Rightarrow> val list \<Rightarrow> store \<Rightarrow> val result" where
  "call_val ev f arguments st = (case f of VFun g \<Rightarrow> call ev g arguments st | _ \<Rightarrow> Inl TypeError)"

text \<open>
  \<^verbatim>\<open>runCall\<close>. An argument is the thunk \<^verbatim>\<open>() => interpreter.eval(x, env)\<close>, kept as the node and
  the environment of the call. Only the functions made by \<^verbatim>\<open>lazy\<close> have the \<^verbatim>\<open>lazy\<close>
  property, and reading it from \<^verbatim>\<open>undefined\<close> or \<^verbatim>\<open>null\<close> throws.
\<close>

datatype thunk = Thunk node "nat option"

definition force :: "evaluator \<Rightarrow> thunk \<Rightarrow> store \<Rightarrow> val result" where
  "force ev t st = (case t of Thunk x env \<Rightarrow> ev x env st)"

fun force_all :: "evaluator \<Rightarrow> thunk list \<Rightarrow> store \<Rightarrow> (val list) result" where
  "force_all ev [] st = Inr ([], st)"
| "force_all ev (t # ts) st =
     andThen (force ev t st) (\<lambda>v st1.
       andThen (force_all ev ts st1) (\<lambda>vs st2. Inr (v # vs, st2)))"

definition lazy :: "val \<Rightarrow> error + bool" where
  "lazy f =
     (case f of
        VUndefined \<Rightarrow> Inl TypeError
      | VNull \<Rightarrow> Inl TypeError
      | VFun (Builtin And) \<Rightarrow> Inr True
      | VFun (Builtin Or) \<Rightarrow> Inr True
      | _ \<Rightarrow> Inr False)"

definition force_param :: "evaluator \<Rightarrow> thunk list \<Rightarrow> nat \<Rightarrow> store \<Rightarrow> val result" where
  "force_param ev ts i st = (if i < length ts then force ev (ts ! i) st else Inl TypeError)"

text \<open>The two lazy functions: \<^verbatim>\<open>(a, b) => a() && b()\<close> and \<^verbatim>\<open>(a, b) => a() || b()\<close>.\<close>

definition call_lazy :: "evaluator \<Rightarrow> val \<Rightarrow> thunk list \<Rightarrow> store \<Rightarrow> val result" where
  "call_lazy ev f ts st =
     (if f = VFun (Builtin And) then
        andThen (force_param ev ts 0 st) (\<lambda>a st1.
          if truthy a then force_param ev ts 1 st1 else Inr (a, st1))
      else if f = VFun (Builtin Or) then
        andThen (force_param ev ts 0 st) (\<lambda>a st1.
          if truthy a then Inr (a, st1) else force_param ev ts 1 st1)
      else Inl TypeError)"

definition runCall :: "evaluator \<Rightarrow> node \<Rightarrow> nat option \<Rightarrow> store \<Rightarrow> val result" where
  "runCall ev node env st =
     (case normalizeCall node of
        Inl e \<Rightarrow> Inl e
      | Inr None \<Rightarrow> Inl TypeError
      | Inr (Some (callee, xs)) \<Rightarrow>
          andThen (ev callee env st) (\<lambda>f st1.
            let thunks = map (\<lambda>x. Thunk x env) xs in
            case lazy f of
              Inl e \<Rightarrow> Inl e
            | Inr True \<Rightarrow> call_lazy ev f thunks st1
            | Inr False \<Rightarrow>
                andThen (force_all ev thunks st1) (\<lambda>vs st2. call_val ev f vs st2)))"

subsection \<open>Handlers\<close>

text \<open>
  The handlers in the order in which the source pushes them. A handler whose key is a
  string of \<open>k\<close> operands is called for nodes with \<open>k\<close> arguments, which is what \<^verbatim>\<open>finalize\<close>
  builds; on a node of that signature with fewer arguments a parameter is \<^verbatim>\<open>undefined\<close>,
  which the host rejects when it is used, and the model answers \<open>TypeError\<close> at once.
\<close>

definition text_key :: "string option \<Rightarrow> string" where
  "text_key t = (case t of None \<Rightarrow> ''undefined'' | Some s \<Rightarrow> s)"

definition variable_handler :: func where
  "variable_handler ev node env as st = resolve env (text_key (node_text node)) st"

definition prefix_handler :: func where
  "prefix_handler ev node env as st = resolve env (''prefix:'' @ text_key (node_text node)) st"

definition digits_value :: "string \<Rightarrow> int" where
  "digits_value s = foldl (\<lambda>n c. 10 * n + (int (of_char c) - 48)) 0 s"

text \<open>\<^verbatim>\<open>parseFloat\<close> on a text of decimal digits; \<^verbatim>\<open>parseFloat(undefined)\<close> is \<^verbatim>\<open>NaN\<close>.\<close>

definition parseFloat :: "string option \<Rightarrow> error + val" where
  "parseFloat t =
     (case t of
        None \<Rightarrow> Inr VNaN
      | Some s \<Rightarrow> if s \<noteq> [] \<and> (\<forall>c \<in> set s. digit c) then num (digits_value s) else Inl Unmodelled)"

definition number_handler :: func where
  "number_handler ev node env as st =
     (case parseFloat (node_text node) of Inl e \<Rightarrow> Inl e | Inr v \<Rightarrow> Inr (v, st))"

definition string_handler :: func where
  "string_handler ev node env as st =
     (case node_text node of
        None \<Rightarrow> Inl TypeError
      | Some s \<Rightarrow> Inr (VStr (take (length s - 2) (drop 1 s)), st))"

definition operator_handler :: func where
  "operator_handler ev node env as st = runCall ev node env st"

definition inner_handler :: func where
  "inner_handler ev node env as st = eval_param ev (param as 0) env st"

definition call_handler :: func where
  "call_handler ev node env as st = runCall ev node env st"

definition call0_handler :: func where
  "call0_handler ev node env as st =
     andThen (eval_param ev (param as 0) env st) (\<lambda>f st1. call_val ev f [] st1)"

fun eval_all :: "evaluator \<Rightarrow> node list \<Rightarrow> nat option \<Rightarrow> store \<Rightarrow> (val list) result" where
  "eval_all ev [] env st = Inr ([], st)"
| "eval_all ev (x # xs) env st =
     andThen (ev x env st) (\<lambda>v st1.
       andThen (eval_all ev xs env st1) (\<lambda>vs st2. Inr (v # vs, st2)))"

definition list_handler :: func where
  "list_handler ev node env as st =
     (case getList (param as 0) of
        Inl e \<Rightarrow> Inl e
      | Inr xs \<Rightarrow> andThen (eval_all ev xs env st) (\<lambda>vs st1. Inr (VList vs, st1)))"

definition empty_list_handler :: func where
  "empty_list_handler ev node env as st = Inr (VList [], st)"

text \<open>
  Indexing: \<^verbatim>\<open>getList(index).reduce((res, x) => getField(res, this.eval(x, env)), this.eval(obj))\<close>.
  The object is evaluated by \<^verbatim>\<open>this.eval(obj)\<close>, with no second argument: its environment is
  \<^verbatim>\<open>undefined\<close>.
\<close>

fun index_fold :: "evaluator \<Rightarrow> nat option \<Rightarrow> val \<Rightarrow> node list \<Rightarrow> store \<Rightarrow> val result" where
  "index_fold ev env res [] st = Inr (res, st)"
| "index_fold ev env res (x # xs) st =
     andThen (ev x env st) (\<lambda>i st1.
       case getField res i of
         Inl e \<Rightarrow> Inl e
       | Inr res' \<Rightarrow> index_fold ev env res' xs st1)"

definition index_handler :: func where
  "index_handler ev node env as st =
     (case getList (param as 1) of
        Inl e \<Rightarrow> Inl e
      | Inr xs \<Rightarrow>
          andThen (eval_param ev (param as 0) None st) (\<lambda>res st1. index_fold ev env res xs st1))"

definition dot_handler :: func where
  "dot_handler ev node env as st =
     andThen (eval_param ev (param as 0) env st) (\<lambda>x st1.
       case param as 1 of
         None \<Rightarrow> Inl TypeError
       | Some field \<Rightarrow>
           andThen
             (if node_type field = ''word'' then Inr (VStr (text_key (node_text field)), st1)
              else ev field env st1)
             (\<lambda>f st2. case getField x f of Inl e \<Rightarrow> Inl e | Inr v \<Rightarrow> Inr (v, st2)))"

fun if_loop :: "evaluator \<Rightarrow> nat option \<Rightarrow> node list \<Rightarrow> store \<Rightarrow> val result" where
  "if_loop ev env [] st = Inr (VUndefined, st)"
| "if_loop ev env [e] st = ev e env st"
| "if_loop ev env (c # t # exprs) st =
     andThen (ev c env st) (\<lambda>v st1.
       if truthy v then ev t env st1 else if_loop ev env exprs st1)"

definition if_handler :: func where
  "if_handler ev node env as st = if_loop ev env as st"

fun sequence_loop :: "evaluator \<Rightarrow> nat option \<Rightarrow> val \<Rightarrow> node list \<Rightarrow> store \<Rightarrow> val result" where
  "sequence_loop ev env lastv [] st = Inr (lastv, st)"
| "sequence_loop ev env lastv (stmt # stmts) st =
     andThen (ev stmt env st) (\<lambda>v st1. sequence_loop ev env v stmts st1)"

definition sequence_handler :: func where
  "sequence_handler ev node env as st = sequence_loop ev env VUndefined as st"

definition buildFunction :: "node list \<Rightarrow> node \<Rightarrow> nat option \<Rightarrow> val" where
  "buildFunction decls body env = VFun (Closure decls body env)"

definition lambda_handler :: func where
  "lambda_handler ev node env as st =
     (case as of
        decl # body # _ \<Rightarrow>
          (case getList (unparenthesize decl) of
             Inl e \<Rightarrow> Inl e
           | Inr xs \<Rightarrow> Inr (buildFunction xs body env, st))
      | _ \<Rightarrow> Inl TypeError)"

fun normalize_all :: "node list \<Rightarrow> error + (node \<times> node list option \<times> node) list" where
  "normalize_all [] = Inr []"
| "normalize_all (d # ds) =
     (case normalizeAssignment d of
        Inl e \<Rightarrow> Inl e
      | Inr x \<Rightarrow> (case normalize_all ds of Inl e \<Rightarrow> Inl e | Inr xs \<Rightarrow> Inr (x # xs)))"

text \<open>
  The loop of the \<^verbatim>\<open>let\<close> handler: a function definition closes over \<open>newEnv\<close>, any other
  expression is evaluated in \<open>env\<close>, the environment of the \<^verbatim>\<open>let\<close>; the value is then bound
  in \<open>newEnv\<close>.
\<close>

fun let_loop ::
  "evaluator \<Rightarrow> nat option \<Rightarrow> nat \<Rightarrow> (node \<times> node list option \<times> node) list \<Rightarrow> store \<Rightarrow>
   error + store" where
  "let_loop ev env newEnv [] st = Inr st"
| "let_loop ev env newEnv ((target, params, expr) # decls) st =
     (case (case params of
              Some ps \<Rightarrow> Inr (buildFunction ps expr (Some newEnv), st)
            | None \<Rightarrow> ev expr env st) of
        Inl e \<Rightarrow> Inl e
      | Inr (v, st1) \<Rightarrow>
         (case variableBinder target newEnv v st1 of
            Inl e \<Rightarrow> Inl e
          | Inr st2 \<Rightarrow> let_loop ev env newEnv decls st2))"

definition let_handler :: func where
  "let_handler ev node env as st =
     (case as of
        rawDecls # body # _ \<Rightarrow>
          (case getList (Some rawDecls) of
             Inl e \<Rightarrow> Inl e
           | Inr ds \<Rightarrow>
              (case normalize_all ds of
                 Inl e \<Rightarrow> Inl e
               | Inr decls \<Rightarrow>
                   andThen (Object_create env st) (\<lambda>newEnv st1.
                     case let_loop ev env newEnv decls st1 of
                       Inl e \<Rightarrow> Inl e
                     | Inr st2 \<Rightarrow> ev body (Some newEnv) st2)))
      | _ \<Rightarrow> Inl TypeError)"

fun for_loop ::
  "evaluator \<Rightarrow> node \<Rightarrow> node option \<Rightarrow> node \<Rightarrow> nat option \<Rightarrow> val list \<Rightarrow> val list \<Rightarrow> store \<Rightarrow>
   val result" where
  "for_loop ev v cond body env results [] st = Inr (VList results, st)"
| "for_loop ev v cond body env results (x # xs) st =
     andThen (Object_create env st) (\<lambda>newEnv st1.
       case variableBinder v newEnv x st1 of
         Inl e \<Rightarrow> Inl e
       | Inr st2 \<Rightarrow>
           andThen
             (case cond of
                None \<Rightarrow> Inr (True, st2)
              | Some c \<Rightarrow> andThen (ev c (Some newEnv) st2) (\<lambda>b st3. Inr (truthy b, st3)))
             (\<lambda>go st3.
                if go then
                  andThen (ev body (Some newEnv) st3) (\<lambda>r st4.
                    for_loop ev v cond body env (results @ [r]) xs st4)
                else for_loop ev v cond body env results xs st3))"

text \<open>Of the iterable values, lists are modelled; a string is iterable too.\<close>

definition forHandler ::
  "evaluator \<Rightarrow> node \<Rightarrow> node \<Rightarrow> node option \<Rightarrow> node \<Rightarrow> nat option \<Rightarrow> store \<Rightarrow> val result" where
  "forHandler ev v list cond body env st =
     andThen (ev list env st) (\<lambda>l st1.
       case l of
         VList xs \<Rightarrow> for_loop ev v cond body env [] xs st1
       | VStr _ \<Rightarrow> Inl Unmodelled
       | _ \<Rightarrow> Inl TypeError)"

definition for_handler :: func where
  "for_handler ev node env as st =
     (case as of
        v # list # body # _ \<Rightarrow> forHandler ev v list None body env st
      | _ \<Rightarrow> Inl TypeError)"

definition for_when_handler :: func where
  "for_when_handler ev node env as st =
     (case as of
        v # list # cond # body # _ \<Rightarrow> forHandler ev v list (Some cond) body env st
      | _ \<Rightarrow> Inl TypeError)"

definition Teacup_handlers :: "handler list" where
  "Teacup_handlers =
     [\<lparr>key = Rx variable_sig, func = variable_handler\<rparr>,
      \<lparr>key = Lit ''prefix'', func = prefix_handler\<rparr>,
      \<lparr>key = Lit ''number'', func = number_handler\<rparr>,
      \<lparr>key = Lit ''string'', func = string_handler\<rparr>,
      \<lparr>key = Rx operator_sig, func = operator_handler\<rparr>,
      \<lparr>key = Lit ''_ ( E ) _'', func = inner_handler\<rparr>,
      \<lparr>key = Lit ''_ begin E end _'', func = inner_handler\<rparr>,
      \<lparr>key = Lit ''E ( E ) _'', func = call_handler\<rparr>,
      \<lparr>key = Lit ''E ( _ ) _'', func = call0_handler\<rparr>,
      \<lparr>key = Lit ''_ [ E ] _'', func = list_handler\<rparr>,
      \<lparr>key = Lit ''_ [ _ ] _'', func = empty_list_handler\<rparr>,
      \<lparr>key = Lit ''E [ E ] _'', func = index_handler\<rparr>,
      \<lparr>key = Lit ''E . E'', func = dot_handler\<rparr>,
      \<lparr>key = Rx if_sig, func = if_handler\<rparr>,
      \<lparr>key = Rx sequence_sig, func = sequence_handler\<rparr>,
      \<lparr>key = Lit ''E -> E'', func = lambda_handler\<rparr>,
      \<lparr>key = Lit ''_ let E in E end _'', func = let_handler\<rparr>,
      \<lparr>key = Lit ''_ for E in E do E end _'', func = for_handler\<rparr>,
      \<lparr>key = Lit ''_ for E in E when E do E end _'', func = for_when_handler\<rparr>]"

subsection \<open>Evaluation\<close>

text \<open>
  \<^verbatim>\<open>Interpreter.prototype.eval\<close> goes through \<^verbatim>\<open>this.handlers\<close>, the reversed list, and calls
  the first handler whose key matches. The handlers call it again on subtrees and on the
  bodies of functions; \<open>fuel\<close> bounds the depth of these nested calls, as the stack of the
  host does.
\<close>

fun dispatch :: "handler list \<Rightarrow> evaluator \<Rightarrow> evaluator" where
  "dispatch [] ev node env st = Inl (SyntaxError (''Unknown node type: '' @ node_type node))"
| "dispatch (h # hs) ev node env st =
     (case extractArgs (key h) node of
        Some as \<Rightarrow> func h ev node env as st
      | None \<Rightarrow> dispatch hs ev node env st)"

record interpreter =
  handlers :: "handler list"
  root :: store

definition Interpreter :: "handler list \<Rightarrow> store \<Rightarrow> interpreter" where
  "Interpreter hs e = \<lparr>handlers = rev hs, root = e\<rparr>"

primrec eval :: "interpreter \<Rightarrow> nat \<Rightarrow> evaluator" where
  "eval this 0 = (\<lambda>node env st. Inl OutOfFuel)"
| "eval this (Suc fuel) = dispatch (handlers this) (eval this fuel)"

text \<open>
  \<^verbatim>\<open>Interpreter.prototype.process\<close> evaluates the result of the parser in \<^verbatim>\<open>this.env\<close>, the root
  environment: \<open>root\<close> is the store that holds it as frame 0. Reading \<^verbatim>\<open>type\<close> from \<^verbatim>\<open>null\<close>, the
  parse of no tokens, throws.
\<close>

definition Interpreter_process :: "interpreter \<Rightarrow> nat \<Rightarrow> slot \<Rightarrow> val result" where
  "Interpreter_process this fuel ast =
     (case ast of
        Elem node \<Rightarrow> eval this fuel node (Some 0) (root this)
      | _ \<Rightarrow> Inl TypeError)"

definition Teacup_lexer :: lexer where
  "Teacup_lexer = Lexer Teacup_tokenDefinitions"

text \<open>The lexer, the prefix tagger and the parser of Teacup, one after the other.\<close>

definition parse :: "string \<Rightarrow> error + slot" where
  "parse source =
     Parser_process Teacup_priorities finalize
       (tagPrefixOperators (Lexer_process Teacup_lexer source))"

definition Teacup_interpreter :: interpreter where
  "Teacup_interpreter = Interpreter Teacup_handlers (makeEnvironment [Teacup_rootEnv])"

text \<open>
  \<^verbatim>\<open>teacup(source)\<close>: the pipeline of lexer, prefix tagger, parser and interpreter; an error of
  a stage ends it. The value is returned, the store of environments is dropped.
\<close>

definition teacup :: "nat \<Rightarrow> string \<Rightarrow> error + val" where
  "teacup fuel source =
     (case parse source of
        Inl e \<Rightarrow> Inl e
      | Inr ast \<Rightarrow>
         (case Interpreter_process Teacup_interpreter fuel ast of
            Inl e \<Rightarrow> Inl e
          | Inr (v, st) \<Rightarrow> Inr v))"

section \<open>Notions used in the statements\<close>

text \<open>An atom is a token whose priority entry is that of words, numbers and strings.\<close>

definition atom :: "token \<Rightarrow> bool" where
  "atom t \<longleftrightarrow> getPrio Teacup_priorities t = Inr (xassoc 20005)"

text \<open>Tokens of the examples.\<close>

definition plus_tok :: token where
  "plus_tok = \<lparr>type = Infix, ttext = ''+'', start = 2, tend = 3\<rparr>"

definition tok42 :: token where
  "tok42 = \<lparr>type = Number, ttext = ''42'', start = 0, tend = 2\<rparr>"

definition tok_at :: "kind \<Rightarrow> string \<Rightarrow> nat \<Rightarrow> token" where
  "tok_at k s i = \<lparr>type = k, ttext = s, start = i, tend = i + length s\<rparr>"

text \<open>
  The signature of an \<^verbatim>\<open>if\<close> without \<^verbatim>\<open>else\<close> that has \<open>k\<close> \<^verbatim>\<open>elif\<close> clauses, and what it means that
  all conditions, evaluated one after the other, are false values: \<open>falsy_chain\<close> gives the
  store after the last one.
\<close>

definition if_signature :: "nat \<Rightarrow> string" where
  "if_signature k = ''_ if E then E'' @ concat (replicate k '' elif E then E'') @ '' end _''"

fun falsy_chain :: "evaluator \<Rightarrow> nat option \<Rightarrow> node list \<Rightarrow> store \<Rightarrow> store option" where
  "falsy_chain ev env [] st = Some st"
| "falsy_chain ev env (c # cs) st =
     (case ev c env st of
        Inl e \<Rightarrow> None
      | Inr (v, st1) \<Rightarrow> if truthy v then None else falsy_chain ev env cs st1)"

text \<open>
  The text of all pieces of a split, one after the other; and the characters at which no
  fragment of Teacup can start a match.
\<close>

definition flatten :: "string option list \<Rightarrow> string" where
  "flatten ps = concat (map (\<lambda>p. case p of None \<Rightarrow> [] | Some s \<Rightarrow> s) ps)"

definition unclassified :: "char \<Rightarrow> bool" where
  "unclassified c \<longleftrightarrow>
     \<not> wordchar c \<and> \<not> opchar c \<and> c \<notin> set ''([{)]},;#'' \<and> c \<noteq> newline \<and> c \<noteq> dquote"

text \<open>
  A result is below another when it is the same or is \<open>OutOfFuel\<close>; an evaluator is below
  another when all its results are.
\<close>

definition below :: "error + 'a \<Rightarrow> error + 'a \<Rightarrow> bool" where
  "below r r' \<longleftrightarrow> r = Inl OutOfFuel \<or> r = r'"

definition evaluator_below :: "evaluator \<Rightarrow> evaluator \<Rightarrow> bool" where
  "evaluator_below ev ev' \<longleftrightarrow> (\<forall>node env st. below (ev node env st) (ev' node env st))"

text \<open>
  The bindings of a \<^verbatim>\<open>let\<close>, in the words of the description: the declarations are taken from
  left to right, and the first error ends the walk. A value binding evaluates its expression in
  the environment \<open>parent\<close> of the \<^verbatim>\<open>let\<close> and binds the target in the new environment \<open>child\<close>;
  a function binding binds the target in \<open>child\<close> to a closure over \<open>child\<close>.
\<close>

definition bind_step ::
  "evaluator \<Rightarrow> nat option \<Rightarrow> nat \<Rightarrow> error + store \<Rightarrow> (node \<times> node list option \<times> node) \<Rightarrow>
   error + store" where
  "bind_step ev parent child r d =
     (case r of
        Inl e \<Rightarrow> Inl e
      | Inr st \<Rightarrow>
         (case d of
            (target, None, expr) \<Rightarrow>
              (case ev expr parent st of
                 Inl e \<Rightarrow> Inl e
               | Inr (v, st1) \<Rightarrow> variableBinder target child v st1)
          | (target, Some ps, expr) \<Rightarrow>
              variableBinder target child (VFun (Closure ps expr (Some child))) st))"

definition sequential_bindings ::
  "evaluator \<Rightarrow> nat option \<Rightarrow> nat \<Rightarrow> (node \<times> node list option \<times> node) list \<Rightarrow> store \<Rightarrow>
   error + store" where
  "sequential_bindings ev parent child decls st = foldl (bind_step ev parent child) (Inr st) decls"

text \<open>
  The node of a declaration list: a single declaration stands for itself, two or more are the
  arguments of one comma node. \<open>declares d decl\<close> holds when the node \<open>d\<close> is a value binding
  \<^verbatim>\<open>x = e\<close> or a function binding \<^verbatim>\<open>f(ps) = e\<close> and \<open>decl\<close> is its target, parameters and
  expression.
\<close>

definition comma_signature :: "nat \<Rightarrow> string" where
  "comma_signature k = ''E'' @ concat (replicate (k - 1) '' , E'')"

fun declares :: "node \<Rightarrow> (node \<times> node list option \<times> node) \<Rightarrow> bool" where
  "declares (Node sig [Token x, ex] os s e) (target, params, expr) \<longleftrightarrow>
     sig = ''E = E'' \<and> target = Token x \<and> params = None \<and> expr = ex"
| "declares (Node sig [Node sig' [f, ps] os' s' e', ex] os s e) (target, params, expr) \<longleftrightarrow>
     sig = ''E = E'' \<and> sig' = ''E ( E ) _'' \<and> target = f \<and> expr = ex \<and>
     (case params of None \<Rightarrow> False | Some xs \<Rightarrow> getList (Some ps) = Inr xs)"
| "declares _ _ = False"

definition declarations :: "node list \<Rightarrow> token list \<Rightarrow> nat \<Rightarrow> nat \<Rightarrow> node" where
  "declarations ds os s e =
     (case ds of [d] \<Rightarrow> d | _ \<Rightarrow> Node (comma_signature (length ds)) ds os s e)"

text \<open>Syntax trees of the examples, as the parser builds them.\<close>

definition paren_1_by_0 :: "nat \<Rightarrow> node" where
  "paren_1_by_0 i =
     Node ''_ ( E ) _''
       [Node ''E / E'' [Token (tok_at Number ''1'' (i + 1)), Token (tok_at Number ''0'' (i + 5))]
          [tok_at Infix ''/'' (i + 3)] (i + 1) (i + 6)]
       [tok_at Open ''('' i, tok_at Close '')'' (i + 6)] i (i + 7)"

definition true_or :: node where
  "true_or = Node ''E or E'' [Token (tok_at Word ''true'' 0), paren_1_by_0 8]
     [tok_at Infix ''or'' 5] 0 15"

definition false_and :: node where
  "false_and = Node ''E and E'' [Token (tok_at Word ''false'' 0), paren_1_by_0 10]
     [tok_at Infix ''and'' 6] 0 17"

definition if_conds :: "node list" where
  "if_conds =
     [Node ''E == E'' [Token (tok_at Number ''1'' 3), Token (tok_at Number ''2'' 8)]
        [tok_at Infix ''=='' 5] 3 9,
      Token (tok_at Word ''false'' 22)]"

definition if_thens :: "node list" where
  "if_thens = [Token (tok_at Number ''5'' 15), Token (tok_at Number ''6'' 33)]"

definition if_ops :: "token list" where
  "if_ops = [tok_at Open ''if'' 0, tok_at Middle ''then'' 10, tok_at Middle ''elif'' 17,
             tok_at Middle ''then'' 28, tok_at Close ''end'' 35]"

definition decl_xy :: "node list" where
  "decl_xy =
     [Node ''E = E'' [Token (tok_at Word ''x'' 4), Token (tok_at Number ''10'' 8)]
        [tok_at Infix ''='' 6] 4 10,
      Node ''E = E''
        [Token (tok_at Word ''y'' 12),
         Node ''E + E'' [Token (tok_at Word ''x'' 16), Token (tok_at Number ''1'' 20)]
           [tok_at Infix ''+'' 18] 16 21]
        [tok_at Infix ''='' 14] 12 21]"

definition norm_xy :: "(node \<times> node list option \<times> node) list" where
  "norm_xy =
     [(Token (tok_at Word ''x'' 4), None, Token (tok_at Number ''10'' 8)),
      (Token (tok_at Word ''y'' 12), None,
       Node ''E + E'' [Token (tok_at Word ''x'' 16), Token (tok_at Number ''1'' 20)]
         [tok_at Infix ''+'' 18] 16 21)]"

definition body_xy :: node where
  "body_xy = Node ''E * E'' [Token (tok_at Word ''y'' 25), Token (tok_at Number ''2'' 29)]
     [tok_at Infix ''*'' 27] 25 30"


definition let_xy :: node where
  "let_xy = Node ''_ let E in E end _'' [declarations decl_xy [tok_at Infix '','' 10] 4 21, body_xy]
     [tok_at Open ''let'' 0, tok_at Middle ''in'' 22, tok_at Close ''end'' 31] 0 34"

definition decl_abc :: "node list" where
  "decl_abc =
     [Node ''E = E'' [Token (tok_at Word ''a'' 4), Token (tok_at Number ''1'' 8)]
        [tok_at Infix ''='' 6] 4 9,
      Node ''E = E'' [Token (tok_at Word ''b'' 11), Token (tok_at Number ''2'' 15)]
        [tok_at Infix ''='' 13] 11 16,
      Node ''E = E'' [Token (tok_at Word ''c'' 18), Token (tok_at Number ''3'' 22)]
        [tok_at Infix ''='' 20] 18 23]"

definition let_abc :: node where
  "let_abc = Node ''_ let E in E end _''
     [declarations decl_abc [tok_at Infix '','' 9, tok_at Infix '','' 16] 4 23,
      Token (tok_at Word ''c'' 27)]
     [tok_at Open ''let'' 0, tok_at Middle ''in'' 24, tok_at Close ''end'' 29] 0 32"

definition norm_abc :: "(node \<times> node list option \<times> node) list" where
  "norm_abc =
     [(Token (tok_at Word ''a'' 4), None, Token (tok_at Number ''1'' 8)),
      (Token (tok_at Word ''b'' 11), None, Token (tok_at Number ''2'' 15)),
      (Token (tok_at Word ''c'' 18), None, Token (tok_at Number ''3'' 22))]"

definition decl_xf :: "node list" where
  "decl_xf =
     [Node ''E = E'' [Token (tok_at Word ''x'' 4), Token (tok_at Number ''10'' 8)]
        [tok_at Infix ''='' 6] 4 10,
      Node ''E = E''
        [Node ''E ( E ) _'' [Token (tok_at Word ''f'' 12), Token (tok_at Word ''n'' 14)]
           [tok_at Open ''('' 13, tok_at Close '')'' 15] 12 16,
         Node ''E + E'' [Token (tok_at Word ''n'' 19), Token (tok_at Word ''x'' 23)]
           [tok_at Infix ''+'' 21] 19 24]
        [tok_at Infix ''='' 17] 12 24]"

definition let_xf :: node where
  "let_xf = Node ''_ let E in E end _''
     [declarations decl_xf [tok_at Infix '','' 10] 4 24,
      Node ''E ( E ) _'' [Token (tok_at Word ''f'' 28), Token (tok_at Number ''1'' 30)]
        [tok_at Open ''('' 29, tok_at Close '')'' 31] 28 32]
     [tok_at Open ''let'' 0, tok_at Middle ''in'' 25, tok_at Close ''end'' 33] 0 36"

definition norm_xf :: "(node \<times> node list option \<times> node) list" where
  "norm_xf =
     [(Token (tok_at Word ''x'' 4), None, Token (tok_at Number ''10'' 8)),
      (Token (tok_at Word ''f'' 12), Some [Token (tok_at Word ''n'' 14)],
       Node ''E + E'' [Token (tok_at Word ''n'' 19), Token (tok_at Word ''x'' 23)]
         [tok_at Infix ''+'' 21] 19 24)]"

section \<open>Properties of the lexer\<close>

text \<open>
  Every fragment of Teacup matches at least one character, and the alternation has eight
  groups: the pieces of a split, put together, are the text.
\<close>

lemma find_in_set: "find P xs = Some x \<Longrightarrow> x \<in> set xs"
  by (induction xs) (auto split: if_splits)

lemma keyword_alt_pos:
  "keyword_alt kws prev s = Some n \<Longrightarrow> [] \<notin> set kws \<Longrightarrow> 0 < n"
  by (auto simp: keyword_alt_def split: if_splits dest: find_in_set)

lemma number_re_pos: "number_re prev s = Some n \<Longrightarrow> 0 < n"
  by (auto simp: number_re_def Let_def split: if_splits)

lemma fragments_pos:
  "open_re prev s = Some n \<Longrightarrow> 0 < n"
  "middle_re prev s = Some n \<Longrightarrow> 0 < n"
  "close_re prev s = Some n \<Longrightarrow> 0 < n"
  "infix_re prev s = Some n \<Longrightarrow> 0 < n"
  "word_re prev s = Some n \<Longrightarrow> 0 < n"
  "string_re prev s = Some n \<Longrightarrow> 0 < n"
  "comment_re prev s = Some n \<Longrightarrow> 0 < n"
  by (auto simp: open_re_def middle_re_def close_re_def infix_re_def word_re_def string_re_def
      comment_re_def dest!: keyword_alt_pos split: list.splits if_splits)

lemma re_Teacup:
  assumes "re Teacup_lexer prev s = Some (g, n)"
  shows "0 < n \<and> g < length (types Teacup_lexer) - 1"
  using assms number_re_pos fragments_pos
  by (auto simp: Teacup_lexer_def Lexer_def Teacup_tokenDefinitions_def split: option.splits)

lemma flatten_simps [simp]:
  "flatten [] = []"
  "flatten (Some s # ps) = s @ flatten ps"
  "flatten (None # ps) = flatten ps"
  "flatten (ps @ qs) = flatten ps @ flatten qs"
  by (simp_all add: flatten_def)

lemma flatten_captures:
  "g < k \<Longrightarrow> flatten ((replicate k None)[g := Some m]) = m"
proof (induction k arbitrary: g)
  case 0
  then show ?case by simp
next
  case (Suc k)
  have r: "flatten (replicate j None) = []" for j
    by (induction j) simp_all
  show ?case
  proof (cases g)
    case 0
    then show ?thesis by (simp add: r)
  next
    case (Suc g')
    then show ?thesis using Suc.IH[of g'] Suc.prems by simp
  qed
qed

lemma take_drop_match: "0 < n \<Longrightarrow> take n (c # cs) @ drop (n - Suc 0) cs = c # cs"
  by (cases n) simp_all

lemma split_flatten:
  assumes "\<forall>prev s g n. re lx prev s = Some (g, n) \<longrightarrow> 0 < n \<and> g < length (types lx) - 1"
  shows "flatten (split lx prev gap s) = gap @ s"
  using assms
proof (induction lx prev gap s rule: split.induct)
  case (1 lx prev gap)
  then show ?case by simp
next
  case (2 lx prev gap c cs)
  show ?case
  proof (cases "re lx prev (c # cs)")
    case None
    then show ?thesis using 2(1)[OF None 2(3)] by simp
  next
    case (Some gn)
    obtain g n where gn: "gn = (g, n)" by (cases gn)
    have p: "0 < n" "g < length (types lx) - 1"
      using 2(3) Some[unfolded gn] by blast+
    have ih: "flatten (split lx (Some (last (take n (c # cs)))) [] (drop (n - 1) cs)) =
        drop (n - 1) cs"
      using 2(2)[OF Some[unfolded gn] refl 2(3)] by simp
    show ?thesis
      using ih Some gn p
      by (simp add: flatten_captures take_drop_match del: take_Suc_Cons)
  qed
qed

lemma pieces_slices:
  "(ty, Some m, b, e) \<in> set (pieces tys i pos ps) \<Longrightarrow>
   \<exists>pre post. flatten ps = pre @ m @ post \<and> b = pos + length pre \<and> e = b + length m"
proof (induction ps arbitrary: i pos)
  case Nil
  then show ?case by simp
next
  case (Cons p ps)
  show ?case
  proof (cases "(ty, Some m, b, e) = (tys ! (i mod length tys), p, pos,
      pos + length (case p of None \<Rightarrow> [] | Some s \<Rightarrow> s))")
    case True
    then have "p = Some m" "b = pos" "e = pos + length m"
      by auto
    then show ?thesis
      by (intro exI[of _ "[]"] exI[of _ "flatten ps"]) simp
  next
    case False
    then have "(ty, Some m, b, e) \<in>
        set (pieces tys (Suc i) (pos + length (case p of None \<Rightarrow> [] | Some s \<Rightarrow> s)) ps)"
      using Cons.prems by auto
    from Cons.IH[OF this] obtain pre post where
      h: "flatten ps = pre @ m @ post"
         "b = pos + length (case p of None \<Rightarrow> [] | Some s \<Rightarrow> s) + length pre"
         "e = b + length m"
      by blast
    show ?thesis
      using h
      by (intro exI[of _ "(case p of None \<Rightarrow> [] | Some s \<Rightarrow> s) @ pre"] exI[of _ post])
        (cases p; simp)
  qed
qed

lemma pieces_types:
  "(ty, tx, b, e) \<in> set (pieces tys i pos ps) \<Longrightarrow> tys \<noteq> [] \<Longrightarrow> ty \<in> set tys"
  by (induction ps arbitrary: i pos) auto

lemma keep_Some:
  "keep p = Some t \<Longrightarrow>
   \<exists>k m b e. p = (Some k, Some m, b, e) \<and> k \<noteq> Comment \<and> m \<noteq> [] \<and>
     t = \<lparr>type = k, ttext = m, start = b, tend = e\<rparr>"
  by (cases p rule: keep.cases) (auto split: if_splits)

lemma map_filter_mem:
  "y \<in> set (List.map_filter f xs) \<Longrightarrow> \<exists>x \<in> set xs. f x = Some y"
  by (induction xs) (auto split: option.splits)

lemma lexer_tokens:
  assumes "t \<in> set (Lexer_process Teacup_lexer txt)"
  shows "ttext t \<noteq> [] \<and> type t \<in> {Number, Open, Middle, Close, Infix, Word, Str} \<and>
     tend t = start t + length (ttext t) \<and> tend t \<le> length txt \<and>
     take (length (ttext t)) (drop (start t) txt) = ttext t"
proof -
  from assms obtain p where p: "p \<in> set (pieces (types Teacup_lexer) 0 0
      (split Teacup_lexer None [] txt))" "keep p = Some t"
    by (auto simp: Lexer_process_def dest: map_filter_mem)
  from keep_Some[OF p(2)] obtain k m b e where
    k: "p = (Some k, Some m, b, e)" "k \<noteq> Comment" "m \<noteq> []"
       "t = \<lparr>type = k, ttext = m, start = b, tend = e\<rparr>"
    by blast
  have "\<forall>prev s g n. re Teacup_lexer prev s = Some (g, n) \<longrightarrow>
      0 < n \<and> g < length (types Teacup_lexer) - 1"
    using re_Teacup by blast
  then have fl: "flatten (split Teacup_lexer None [] txt) = txt"
    by (simp add: split_flatten)
  have mem: "(Some k, Some m, b, e) \<in> set (pieces (types Teacup_lexer) 0 0
      (split Teacup_lexer None [] txt))"
    using p(1) k(1) by simp
  from pieces_slices[OF mem] fl obtain pre post where
    s: "txt = pre @ m @ post" "b = length pre" "e = b + length m"
    by auto
  have "Some k \<in> set (types Teacup_lexer)"
    using pieces_types[OF mem]
    by (simp add: Teacup_lexer_def Lexer_def)
  then have ty: "k \<in> {Number, Open, Middle, Close, Infix, Word, Str}"
    using k(2) by (auto simp: Teacup_lexer_def Lexer_def Teacup_tokenDefinitions_def)
  show ?thesis
    using k(3,4) s ty by simp
qed

lemma unclassified_no_match:
  assumes "unclassified c"
  shows "re Teacup_lexer prev (c # cs) = None"
  using assms
  by (auto simp: Teacup_lexer_def Lexer_def Teacup_tokenDefinitions_def unclassified_def
      number_re_def open_re_def middle_re_def close_re_def infix_re_def word_re_def
      string_re_def comment_re_def keyword_alt_def keyword_at_def digit_def wordchar_def
      opchar_def Let_def)

lemma split_unclassified:
  "\<forall>c \<in> set s. unclassified c \<Longrightarrow> split Teacup_lexer prev gap s = [Some (gap @ s)]"
  by (induction s arbitrary: prev gap) (simp_all add: unclassified_no_match)

lemma lexer_unclassified:
  assumes "\<forall>c \<in> set txt. unclassified c"
  shows "Lexer_process Teacup_lexer txt = []"
proof -
  have "split Teacup_lexer None [] txt = [Some txt]"
    using split_unclassified[OF assms, of None "[]"] by simp
  then show ?thesis
    by (simp add: Lexer_process_def Teacup_lexer_def Lexer_def)
qed

text \<open>
  Claim C5, as stated, at the text \<^verbatim>\<open>3 ` 4\<close>: no fragment matches at the backquote, and the
  lexer returns the two number tokens. \<^verbatim>\<open>Lexer.prototype.process\<close> has no \<^verbatim>\<open>throw\<close>; what lies
  between two matches is a piece of type \<^verbatim>\<open>null\<close>, which the filter removes.
\<close>

theorem lexer_backquote_counterexample:
  "unclassified (CHR ''`'') \<and>
   re Teacup_lexer (Some (CHR '' '')) ''` 4'' = None \<and>
   Lexer_process Teacup_lexer ''3 ` 4'' = [tok_at Number ''3'' 0, tok_at Number ''4'' 4]"
  by code_simp

text \<open>
  Claim C5, amended. For every text the lexer returns a token sequence, whether or not the
  text has characters that no rule consumes: such characters are dropped. Every token is
  a non-empty piece of the text, found at the offsets it records, of one of the seven types
  other than \<^verbatim>\<open>comment\<close>; and a text made only of characters at which no fragment can start
  (blanks, backquotes) gives no token at all.
\<close>

theorem lexer_drops_what_no_rule_consumes:
  "(\<forall>t \<in> set (Lexer_process Teacup_lexer txt).
      ttext t \<noteq> [] \<and> type t \<in> {Number, Open, Middle, Close, Infix, Word, Str} \<and>
      tend t = start t + length (ttext t) \<and> tend t \<le> length txt \<and>
      take (length (ttext t)) (drop (start t) txt) = ttext t) \<and>
   ((\<forall>c \<in> set txt. unclassified c) \<longrightarrow> Lexer_process Teacup_lexer txt = [])"
  using lexer_tokens[of _ "txt"] lexer_unclassified[of "txt"] by blast

theorem lexer_drops_witness:
  "Lexer_process Teacup_lexer ''3 ` 4'' = [tok_at Number ''3'' 0, tok_at Number ''4'' 4] \<and>
   take 1 (drop 0 ''3 ` 4'') = ''3'' \<and> take 1 (drop 4 ''3 ` 4'') = ''4'' \<and>
   unclassified (CHR ''`'') \<and> unclassified (CHR '' '') \<and>
   Lexer_process Teacup_lexer '' ` '' = []"
proof -
  have l: "Lexer_process Teacup_lexer ''3 ` 4'' = [tok_at Number ''3'' 0, tok_at Number ''4'' 4]"
    by code_simp
  have u: "unclassified (CHR ''`'')" "unclassified (CHR '' '')"
    by code_simp+
  show ?thesis
    using lexer_drops_what_no_rule_consumes [of "''3 ` 4''"]
      lexer_drops_what_no_rule_consumes [of "'' ` ''"] l u
    by (simp add: tok_at_def)
qed

section \<open>The result does not depend on the fuel\<close>

text \<open>
  No handler catches an error, so an evaluation that does not end in \<open>OutOfFuel\<close> has not
  met it anywhere, and more fuel gives the same result.
\<close>

lemma below_refl [simp]: "below r r"
  by (simp add: below_def)

lemma below_fuel [simp]: "below (Inl OutOfFuel) r"
  by (simp add: below_def)

lemma below_ev: "evaluator_below ev ev' \<Longrightarrow> below (ev node env st) (ev' node env st)"
  by (simp add: evaluator_below_def)

lemma below_andThen:
  "below r r' \<Longrightarrow> (\<And>x st. below (f x st) (f' x st)) \<Longrightarrow> below (andThen r f) (andThen r' f')"
  by (auto simp: below_def andThen_def split: sum.splits)

lemma below_case_sum:
  "below r r' \<Longrightarrow> (\<And>x. below (f x) (f' x)) \<Longrightarrow>
   below (case r of Inl e \<Rightarrow> Inl e | Inr x \<Rightarrow> f x) (case r' of Inl e \<Rightarrow> Inl e | Inr x \<Rightarrow> f' x)"
  by (auto simp: below_def split: sum.splits)

lemma below_eval_param:
  "evaluator_below ev ev' \<Longrightarrow> below (eval_param ev x env st) (eval_param ev' x env st)"
  by (cases x) (simp_all add: eval_param_def below_ev)

lemma below_call:
  "evaluator_below ev ev' \<Longrightarrow> below (call ev f vs st) (call ev' f vs st)"
proof (induction f)
  case (Builtin b)
  then show ?case by simp
next
  case (Closure decls body env)
  then show ?case
    by (auto intro!: below_andThen simp: below_ev split: sum.splits)
next
  case (Bound f)
  then show ?case by simp
qed

lemma below_call_val:
  "evaluator_below ev ev' \<Longrightarrow> below (call_val ev f vs st) (call_val ev' f vs st)"
  by (cases f) (simp_all add: call_val_def below_call)

lemma below_force:
  "evaluator_below ev ev' \<Longrightarrow> below (force ev t st) (force ev' t st)"
  by (cases t) (simp add: force_def below_ev)

lemma below_force_all:
  "evaluator_below ev ev' \<Longrightarrow> below (force_all ev ts st) (force_all ev' ts st)"
  by (induction ts arbitrary: st) (auto intro!: below_andThen simp: below_force)

lemma below_force_param:
  "evaluator_below ev ev' \<Longrightarrow> below (force_param ev ts i st) (force_param ev' ts i st)"
  by (simp add: force_param_def below_force)

lemma below_call_lazy:
  "evaluator_below ev ev' \<Longrightarrow> below (call_lazy ev f ts st) (call_lazy ev' f ts st)"
  by (auto simp: call_lazy_def below_force_param intro!: below_andThen)

lemma below_runCall:
  "evaluator_below ev ev' \<Longrightarrow> below (runCall ev node env st) (runCall ev' node env st)"
  by (auto simp: runCall_def Let_def below_ev below_call_lazy below_force_all below_call_val
      intro!: below_andThen split: sum.splits option.splits bool.splits)

lemma below_eval_all:
  "evaluator_below ev ev' \<Longrightarrow> below (eval_all ev xs env st) (eval_all ev' xs env st)"
  by (induction xs arbitrary: st) (auto intro!: below_andThen simp: below_ev)

lemma below_index_fold:
  "evaluator_below ev ev' \<Longrightarrow> below (index_fold ev env res xs st) (index_fold ev' env res xs st)"
  by (induction xs arbitrary: res st) (auto intro!: below_andThen simp: below_ev split: sum.splits)

lemma below_if_loop:
  "evaluator_below ev ev' \<Longrightarrow> below (if_loop ev env xs st) (if_loop ev' env xs st)"
  by (induction ev env xs st rule: if_loop.induct) (auto intro!: below_andThen simp: below_ev)

lemma below_sequence_loop:
  "evaluator_below ev ev' \<Longrightarrow>
   below (sequence_loop ev env v xs st) (sequence_loop ev' env v xs st)"
  by (induction xs arbitrary: v st) (auto intro!: below_andThen simp: below_ev)

lemma below_let_loop:
  "evaluator_below ev ev' \<Longrightarrow>
   below (let_loop ev env newEnv ds st) (let_loop ev' env newEnv ds st)"
proof (induction ds arbitrary: st)
  case Nil
  then show ?case by simp
next
  case (Cons d ds)
  obtain target params expr where d: "d = (target, params, expr)"
    by (cases d)
  have ih: "below (let_loop ev env newEnv ds st') (let_loop ev' env newEnv ds st')" for st'
    using Cons.IH[OF Cons.prems] .
  show ?case
  proof (cases params)
    case None
    have "below (ev expr env st) (ev' expr env st)"
      using Cons.prems by (rule below_ev)
    then consider "ev expr env st = Inl OutOfFuel" | "ev expr env st = ev' expr env st"
      by (auto simp: below_def)
    then show ?thesis
    proof cases
      case 1
      then show ?thesis by (simp add: d None)
    next
      case 2
      then show ?thesis by (auto simp: d None ih split: sum.splits)
    qed
  next
    case (Some ps)
    then show ?thesis
      by (auto simp: d ih split: sum.splits)
  qed
qed

lemma below_for_cond:
  "evaluator_below ev ev' \<Longrightarrow>
   below
     (case cond of
        None \<Rightarrow> Inr (True, st)
      | Some c \<Rightarrow> andThen (ev c env st) (\<lambda>b st3. Inr (truthy b, st3)))
     (case cond of
        None \<Rightarrow> Inr (True, st)
      | Some c \<Rightarrow> andThen (ev' c env st) (\<lambda>b st3. Inr (truthy b, st3)))"
  by (cases cond) (auto intro!: below_andThen simp: below_ev)

lemma below_for_loop:
  "evaluator_below ev ev' \<Longrightarrow>
   below (for_loop ev v cond body env rs xs st) (for_loop ev' v cond body env rs xs st)"
proof (induction xs arbitrary: rs st)
  case Nil
  then show ?case by simp
next
  case (Cons x xs)
  have ih: "below (for_loop ev v cond body env rs' xs st') (for_loop ev' v cond body env rs' xs st')"
    for rs' st'
    using Cons.IH[OF Cons.prems] .
  show ?case
    using Cons.prems
    by (auto intro!: below_andThen below_for_cond simp: below_ev ih split: sum.splits)
qed

lemma below_forHandler:
  "evaluator_below ev ev' \<Longrightarrow>
   below (forHandler ev v list cond body env st) (forHandler ev' v list cond body env st)"
  by (auto simp: forHandler_def below_ev below_for_loop intro!: below_andThen split: val.splits)

lemma below_handlers:
  assumes "evaluator_below ev ev'" and "h \<in> set Teacup_handlers"
  shows "below (func h ev node env as st) (func h ev' node env as st)"
proof -
  note b = below_ev below_eval_param below_runCall below_call_val below_eval_all
    below_index_fold below_if_loop below_sequence_loop below_let_loop below_forHandler
  have "below (variable_handler ev node env as st) (variable_handler ev' node env as st)"
    "below (prefix_handler ev node env as st) (prefix_handler ev' node env as st)"
    "below (number_handler ev node env as st) (number_handler ev' node env as st)"
    "below (string_handler ev node env as st) (string_handler ev' node env as st)"
    "below (empty_list_handler ev node env as st) (empty_list_handler ev' node env as st)"
    "below (lambda_handler ev node env as st) (lambda_handler ev' node env as st)"
    by (simp_all add: variable_handler_def prefix_handler_def number_handler_def
        string_handler_def empty_list_handler_def lambda_handler_def)
  moreover have "below (operator_handler ev node env as st) (operator_handler ev' node env as st)"
    "below (call_handler ev node env as st) (call_handler ev' node env as st)"
    "below (inner_handler ev node env as st) (inner_handler ev' node env as st)"
    "below (if_handler ev node env as st) (if_handler ev' node env as st)"
    "below (sequence_handler ev node env as st) (sequence_handler ev' node env as st)"
    using assms(1)
    by (simp_all add: operator_handler_def call_handler_def inner_handler_def if_handler_def
        sequence_handler_def b)
  moreover have "below (call0_handler ev node env as st) (call0_handler ev' node env as st)"
    using assms(1) by (auto simp: call0_handler_def b intro!: below_andThen)
  moreover have "below (list_handler ev node env as st) (list_handler ev' node env as st)"
    using assms(1) by (auto simp: list_handler_def b intro!: below_andThen split: sum.splits)
  moreover have "below (index_handler ev node env as st) (index_handler ev' node env as st)"
    using assms(1) by (auto simp: index_handler_def b intro!: below_andThen split: sum.splits)
  moreover have "below (dot_handler ev node env as st) (dot_handler ev' node env as st)"
    using assms(1)
    by (auto simp: dot_handler_def b intro!: below_andThen split: sum.splits option.splits)
  moreover have "below (let_handler ev node env as st) (let_handler ev' node env as st)"
    using assms(1)
    by (auto simp: let_handler_def b intro!: below_andThen below_case_sum
        split: sum.splits list.splits)
  moreover have "below (for_handler ev node env as st) (for_handler ev' node env as st)"
    "below (for_when_handler ev node env as st) (for_when_handler ev' node env as st)"
    using assms(1)
    by (auto simp: for_handler_def for_when_handler_def b split: list.splits)
  ultimately show ?thesis
    using assms(2) by (auto simp: Teacup_handlers_def)
qed

lemma below_dispatch:
  "evaluator_below ev ev' \<Longrightarrow> set hs \<subseteq> set Teacup_handlers \<Longrightarrow>
   below (dispatch hs ev node env st) (dispatch hs ev' node env st)"
  by (induction hs) (auto simp: below_handlers split: option.splits)

lemma eval_below_Suc:
  "evaluator_below (eval Teacup_interpreter n) (eval Teacup_interpreter (Suc n))"
proof (induction n)
  case 0
  then show ?case by (simp add: evaluator_below_def)
next
  case (Suc n)
  have "set (handlers Teacup_interpreter) \<subseteq> set Teacup_handlers"
    by (simp add: Teacup_interpreter_def Interpreter_def)
  then show ?case
    using below_dispatch[OF Suc] by (simp add: evaluator_below_def)
qed

lemma eval_fuel_mono:
  assumes "eval Teacup_interpreter n node env st = r" and "r \<noteq> Inl OutOfFuel"
  shows "eval Teacup_interpreter (n + k) node env st = r"
proof (induction k)
  case 0
  then show ?case using assms by simp
next
  case (Suc k)
  have "below (eval Teacup_interpreter (n + k) node env st)
      (eval Teacup_interpreter (Suc (n + k)) node env st)"
    using eval_below_Suc[of "n + k"] by (simp add: evaluator_below_def del: eval.simps)
  then show ?case
    using Suc assms(2) by (simp add: below_def del: eval.simps)
qed

lemma teacup_fuel_mono:
  assumes "teacup n source = r" and "r \<noteq> Inl OutOfFuel"
  shows "teacup (n + k) source = r"
proof (cases "parse source")
  case (Inl e)
  then show ?thesis using assms by (simp add: teacup_def)
next
  case (Inr ast)
  show ?thesis
  proof (cases ast)
    case (Elem node)
    let ?r = "eval Teacup_interpreter n node (Some 0) (root Teacup_interpreter)"
    have "?r \<noteq> Inl OutOfFuel"
      using assms Inr Elem by (auto simp: teacup_def Interpreter_process_def)
    then have "eval Teacup_interpreter (n + k) node (Some 0) (root Teacup_interpreter) = ?r"
      using eval_fuel_mono by blast
    then show ?thesis
      using assms Inr Elem by (simp add: teacup_def Interpreter_process_def del: eval.simps)
  qed (use assms Inr in \<open>simp_all add: teacup_def Interpreter_process_def\<close>)
qed

text \<open>The programs of the examples, run with fuel 20.\<close>

lemma examples:
  "teacup 20 ''-3 + 4'' = Inr VNaN"
  "teacup 20 ''(-3 + 4)'' = Inr (VNum 1)"
  "teacup 20 ''2 ^ 3 ^ 2'' = Inr (VNum 512)"
  "teacup 20 ''let i = 0 in [[1,2],[3,4]][i, 1] end'' = Inr (VNum 2)"
  "teacup 20 ''let i = 0 in [[1,2],[3,4]][i][1] end'' = Inl TypeError"
  "teacup 20 ''true or (1 / 0)'' = Inr (VBool True)"
  "teacup 20 ''let x = 10, y = x + 1 in y * 2 end'' =
     Inl (ReferenceError ''Undefined variable: 'x'.'')"
  by code_simp+

section \<open>Properties of the prefix tagger\<close>

lemma tagLoop_again:
  "p' = p \<or> (p = Some Infix \<and> p' = Some Prefix) \<Longrightarrow> tagLoop p' (tagLoop p ts) = tagLoop p ts"
proof (induction ts arbitrary: p p')
  case Nil
  then show ?case by simp
next
  case (Cons t ts)
  show ?case using Cons.prems
    by (auto simp: Cons.IH)
qed

text \<open>
  Claim C9. The prefix tagger is idempotent: tagging an already tagged token sequence gives
  the same sequence again, and so the same sequence of token types. On the second pass
  \<^verbatim>\<open>prevType\<close> is \<^verbatim>\<open>"prefix"\<close> where it was \<^verbatim>\<open>"infix"\<close> on the first, which tags nothing new.
\<close>

theorem tagPrefixOperators_idempotent:
  "tagPrefixOperators (tagPrefixOperators ts) = tagPrefixOperators ts \<and>
   map type (tagPrefixOperators (tagPrefixOperators ts)) = map type (tagPrefixOperators ts)"
  by (simp add: tagPrefixOperators_def tagLoop_again)

text \<open>
  Claim C1, at the program \<^verbatim>\<open>-3 + 4\<close>. \<^verbatim>\<open>prevType\<close> is \<^verbatim>\<open>"start"\<close> at the first token, which is
  neither \<^verbatim>\<open>"infix"\<close> nor \<^verbatim>\<open>"open"\<close>: the leading \<^verbatim>\<open>-\<close> stays an infix token, the parser builds
  \<^verbatim>\<open>(_ - 3) + 4\<close>, the binary minus is called with one argument and the result is \<^verbatim>\<open>NaN\<close>.
  After an opening bracket the same minus is tagged and \<^verbatim>\<open>(-3 + 4)\<close> is 1. This is so for
  every fuel from 20 on.
\<close>

theorem leading_minus_stays_infix:
  "map type (tagPrefixOperators (Lexer_process Teacup_lexer ''-3 + 4'')) =
     [Infix, Number, Infix, Number] \<and>
   teacup (20 + k) ''-3 + 4'' = Inr VNaN \<and>
   teacup (20 + k) ''(-3 + 4)'' = Inr (VNum 1)"
proof -
  have "map type (tagPrefixOperators (Lexer_process Teacup_lexer ''-3 + 4'')) =
     [Infix, Number, Infix, Number]"
    by code_simp
  then show ?thesis
    using teacup_fuel_mono[OF examples(1), of k] teacup_fuel_mono[OF examples(2), of k]
    by simp
qed

section \<open>Properties of the parser\<close>

text \<open>
  Claim C2, as stated, at \<^verbatim>\<open>order(+, +)\<close>: the right field of the left token, 504, is less
  than the left field of the right token, 505, and \<^verbatim>\<open>order\<close> returns -1, not +1.
\<close>

theorem order_plus_plus_counterexample:
  "getPrio Teacup_priorities plus_tok = Inr (lassoc 505) \<and>
   right (lassoc 505) < left (lassoc 505) \<and>
   order Teacup_priorities (Some plus_tok) (Some plus_tok) = Inr (Sign (- 1))"
  by (simp add: order_def getPrio_def Teacup_priorities_def plus_tok_def lassoc_def)

text \<open>
  Claim C2, amended. \<^verbatim>\<open>order(a, b)\<close> is \<^verbatim>\<open>"done"\<close> when both tokens are absent. When both have
  a priority entry it compares the \<^verbatim>\<open>left\<close> field of the left token \<open>a\<close> with the \<^verbatim>\<open>right\<close>
  field of the right token \<open>b\<close>: +1 exactly when \<open>left pa < right pb\<close>, -1 exactly when it
  is greater, 0 exactly when they are equal.
\<close>

theorem order_compares_left_of_left_with_right_of_right:
  "order ps None None = Inr Done \<and>
   (getPrio ps a = Inr pa \<longrightarrow> getPrio ps b = Inr pb \<longrightarrow>
      (order ps (Some a) (Some b) = Inr (Sign 1) \<longleftrightarrow> left pa < right pb) \<and>
      (order ps (Some a) (Some b) = Inr (Sign (- 1)) \<longleftrightarrow> left pa > right pb) \<and>
      (order ps (Some a) (Some b) = Inr (Sign 0) \<longleftrightarrow> left pa = right pb) \<and>
      (\<exists>s \<in> {1, - 1, 0}. order ps (Some a) (Some b) = Inr (Sign s)))"
  by (auto simp: order_def sgn_if)

theorem order_compares_witness:
  "order Teacup_priorities None None = Inr Done \<and>
   getPrio Teacup_priorities plus_tok = Inr (lassoc 505) \<and>
   (order Teacup_priorities (Some plus_tok) (Some plus_tok) = Inr (Sign (- 1)) \<longleftrightarrow>
      left (lassoc 505) > right (lassoc 505)) \<and>
   left (lassoc 505) > right (lassoc 505)"
proof -
  have g: "getPrio Teacup_priorities plus_tok = Inr (lassoc 505)"
    by (simp add: getPrio_def Teacup_priorities_def plus_tok_def)
  show ?thesis
    using order_compares_left_of_left_with_right_of_right
      [of Teacup_priorities plus_tok "lassoc 505" plus_tok "lassoc 505"] g
    by (simp add: lassoc_def)
qed

lemma getPrio_infix:
  "type t = Infix \<Longrightarrow> ttext t \<in> {''+'', ''-''} \<Longrightarrow> getPrio Teacup_priorities t = Inr (lassoc 505)"
  "type t = Infix \<Longrightarrow> ttext t \<in> {''*'', ''/'', ''%''} \<Longrightarrow> getPrio Teacup_priorities t = Inr (lassoc 605)"
  "type t = Infix \<Longrightarrow> ttext t = ''and'' \<Longrightarrow> getPrio Teacup_priorities t = Inr (lassoc 125)"
  "type t = Infix \<Longrightarrow> ttext t = ''or'' \<Longrightarrow> getPrio Teacup_priorities t = Inr (lassoc 115)"
  "type t = Infix \<Longrightarrow> ttext t = ''^'' \<Longrightarrow> getPrio Teacup_priorities t = Inr (rassoc 705)"
  "type t = Infix \<Longrightarrow> ttext t \<in> {''='', ''->''} \<Longrightarrow> getPrio Teacup_priorities t = Inr (rassoc 35)"
  by (auto simp: getPrio_def Teacup_priorities_def)

text \<open>
  Two equal operators between three atoms: when the operator's \<^verbatim>\<open>right\<close> is below its \<^verbatim>\<open>left\<close>
  the first handle is closed at the second operator, when it is above a new handle is
  opened.
\<close>

lemma parse_left:
  assumes a: "getPrio ps a = Inr (xassoc 20005)" and b: "getPrio ps b = Inr (xassoc 20005)"
    and c: "getPrio ps c = Inr (xassoc 20005)"
    and o1: "getPrio ps o1 = Inr p" and o2: "getPrio ps o2 = Inr p"
    and p: "right p < left p" "left p < 20005" "right p < 20005"
  shows "Parser_process ps finalize [a, o1, b, o2, c] =
     Inr (Elem (Node (''E '' @ ttext o2 @ '' E'')
        [Node (''E '' @ ttext o1 @ '' E'') [Token a, Token b] [o1] (start a) (tend b), Token c]
        [o2] (start a) (tend c)))"
  using assms
  by (simp add: Parser_process_def next_def order_def xassoc_def finalize_def last_op_def
       truthy_slot_def op_slot_def operand_mark_def)

lemma parse_right:
  assumes a: "getPrio ps a = Inr (xassoc 20005)" and b: "getPrio ps b = Inr (xassoc 20005)"
    and c: "getPrio ps c = Inr (xassoc 20005)"
    and o1: "getPrio ps o1 = Inr p" and o2: "getPrio ps o2 = Inr p"
    and p: "left p < right p" "left p < 20005" "right p < 20005"
  shows "Parser_process ps finalize [a, o1, b, o2, c] =
     Inr (Elem (Node (''E '' @ ttext o1 @ '' E'')
        [Token a, Node (''E '' @ ttext o2 @ '' E'') [Token b, Token c] [o2] (start b) (tend c)]
        [o1] (start a) (tend c)))"
  using assms
  by (simp add: Parser_process_def next_def order_def xassoc_def finalize_def last_op_def
       truthy_slot_def op_slot_def operand_mark_def)

lemma assoc_left:
  assumes "atom a" "atom b" "atom c"
    and o: "type o1 = Infix" "type o2 = Infix" "ttext o1 = op" "ttext o2 = op"
    and op: "op \<in> {''+'', ''-'', ''*'', ''/'', ''%'', ''and'', ''or''}"
  shows "Parser_process Teacup_priorities finalize [a, o1, b, o2, c] =
          Inr (Elem (Node (''E '' @ op @ '' E'')
            [Node (''E '' @ op @ '' E'') [Token a, Token b] [o1] (start a) (tend b), Token c]
            [o2] (start a) (tend c)))"
proof -
  obtain p where p: "getPrio Teacup_priorities o1 = Inr p" "getPrio Teacup_priorities o2 = Inr p"
    "right p < left p" "left p < 20005" "right p < 20005"
    using o op getPrio_infix(1-4)[of o1] getPrio_infix(1-4)[of o2]
    by (auto simp: lassoc_def)
  show ?thesis
    using parse_left[OF _ _ _ p] assms by (simp add: atom_def)
qed

lemma assoc_right:
  assumes "atom a" "atom b" "atom c"
    and o: "type o1 = Infix" "type o2 = Infix" "ttext o1 = op" "ttext o2 = op"
    and op: "op \<in> {''^'', ''='', ''->''}"
  shows "Parser_process Teacup_priorities finalize [a, o1, b, o2, c] =
          Inr (Elem (Node (''E '' @ op @ '' E'')
            [Token a, Node (''E '' @ op @ '' E'') [Token b, Token c] [o2] (start b) (tend c)]
            [o1] (start a) (tend c)))"
proof -
  obtain p where p: "getPrio Teacup_priorities o1 = Inr p" "getPrio Teacup_priorities o2 = Inr p"
    "left p < right p" "left p < 20005" "right p < 20005"
    using o op getPrio_infix(5-6)[of o1] getPrio_infix(5-6)[of o2]
    by (auto simp: rassoc_def)
  show ?thesis
    using parse_right[OF _ _ _ p] assms by (simp add: atom_def)
qed

lemma pow_example: "teacup (20 + k) ''2 ^ 3 ^ 2'' = Inr (VNum 512)"
  using teacup_fuel_mono[OF examples(3)] by simp

text \<open>
  Claim C3. For the operators that the priority table declares with \<^verbatim>\<open>lassoc\<close> (\<^verbatim>\<open>+ - * / %\<close>,
  \<^verbatim>\<open>and\<close>, \<^verbatim>\<open>or\<close>), the tokens of \<^verbatim>\<open>a op b op c\<close>, with atoms for operands, parse as
  \<^verbatim>\<open>(a op b) op c\<close>; for those declared with \<^verbatim>\<open>rassoc\<close> (\<^verbatim>\<open>^\<close>, \<^verbatim>\<open>=\<close>, \<^verbatim>\<open>->\<close>) they parse as
  \<^verbatim>\<open>a op (b op c)\<close>; and the program \<^verbatim>\<open>2 ^ 3 ^ 2\<close> evaluates to 512, with every fuel from 20 on.
\<close>

theorem associativity:
  "(atom a \<and> atom b \<and> atom c \<and> type o1 = Infix \<and> type o2 = Infix \<and>
    ttext o1 = op \<and> ttext o2 = op \<longrightarrow>
     (op \<in> {''+'', ''-'', ''*'', ''/'', ''%'', ''and'', ''or''} \<longrightarrow>
        Parser_process Teacup_priorities finalize [a, o1, b, o2, c] =
          Inr (Elem (Node (''E '' @ op @ '' E'')
            [Node (''E '' @ op @ '' E'') [Token a, Token b] [o1] (start a) (tend b), Token c]
            [o2] (start a) (tend c)))) \<and>
     (op \<in> {''^'', ''='', ''->''} \<longrightarrow>
        Parser_process Teacup_priorities finalize [a, o1, b, o2, c] =
          Inr (Elem (Node (''E '' @ op @ '' E'')
            [Token a, Node (''E '' @ op @ '' E'') [Token b, Token c] [o2] (start b) (tend c)]
            [o1] (start a) (tend c))))) \<and>
   teacup (20 + k) ''2 ^ 3 ^ 2'' = Inr (VNum 512)"
proof (intro conjI impI)
  assume h: "atom a \<and> atom b \<and> atom c \<and> type o1 = Infix \<and> type o2 = Infix \<and>
    ttext o1 = op \<and> ttext o2 = op"
    and op: "op \<in> {''+'', ''-'', ''*'', ''/'', ''%'', ''and'', ''or''}"
  from h have "atom a" "atom b" "atom c" "type o1 = Infix" "type o2 = Infix"
    "ttext o1 = op" "ttext o2 = op"
    by blast+
  then show "Parser_process Teacup_priorities finalize [a, o1, b, o2, c] =
          Inr (Elem (Node (''E '' @ op @ '' E'')
            [Node (''E '' @ op @ '' E'') [Token a, Token b] [o1] (start a) (tend b), Token c]
            [o2] (start a) (tend c)))"
    using op by (rule assoc_left)
next
  assume h: "atom a \<and> atom b \<and> atom c \<and> type o1 = Infix \<and> type o2 = Infix \<and>
    ttext o1 = op \<and> ttext o2 = op"
    and op: "op \<in> {''^'', ''='', ''->''}"
  from h have "atom a" "atom b" "atom c" "type o1 = Infix" "type o2 = Infix"
    "ttext o1 = op" "ttext o2 = op"
    by blast+
  then show "Parser_process Teacup_priorities finalize [a, o1, b, o2, c] =
          Inr (Elem (Node (''E '' @ op @ '' E'')
            [Token a, Node (''E '' @ op @ '' E'') [Token b, Token c] [o2] (start b) (tend c)]
            [o1] (start a) (tend c)))"
    using op by (rule assoc_right)
next
  show "teacup (20 + k) ''2 ^ 3 ^ 2'' = Inr (VNum 512)"
    by (rule pow_example)
qed

theorem associativity_witness:
  "tagPrefixOperators (Lexer_process Teacup_lexer ''x - y - z'') =
     [tok_at Word ''x'' 0, tok_at Infix ''-'' 2, tok_at Word ''y'' 4, tok_at Infix ''-'' 6, tok_at Word ''z'' 8] \<and>
   Parser_process Teacup_priorities finalize
     [tok_at Word ''x'' 0, tok_at Infix ''-'' 2, tok_at Word ''y'' 4, tok_at Infix ''-'' 6, tok_at Word ''z'' 8] =
     Inr (Elem (Node ''E - E''
       [Node ''E - E'' [Token (tok_at Word ''x'' 0), Token (tok_at Word ''y'' 4)] [tok_at Infix ''-'' 2] 0 5,
        Token (tok_at Word ''z'' 8)]
       [tok_at Infix ''-'' 6] 0 9)) \<and>
   tagPrefixOperators (Lexer_process Teacup_lexer ''x ^ y ^ z'') =
     [tok_at Word ''x'' 0, tok_at Infix ''^'' 2, tok_at Word ''y'' 4, tok_at Infix ''^'' 6, tok_at Word ''z'' 8] \<and>
   Parser_process Teacup_priorities finalize
     [tok_at Word ''x'' 0, tok_at Infix ''^'' 2, tok_at Word ''y'' 4, tok_at Infix ''^'' 6, tok_at Word ''z'' 8] =
     Inr (Elem (Node ''E ^ E''
       [Token (tok_at Word ''x'' 0),
        Node ''E ^ E'' [Token (tok_at Word ''y'' 4), Token (tok_at Word ''z'' 8)] [tok_at Infix ''^'' 6] 4 9]
       [tok_at Infix ''^'' 2] 0 9))"
proof -
  have lex: "tagPrefixOperators (Lexer_process Teacup_lexer ''x - y - z'') =
     [tok_at Word ''x'' 0, tok_at Infix ''-'' 2, tok_at Word ''y'' 4, tok_at Infix ''-'' 6, tok_at Word ''z'' 8]"
    "tagPrefixOperators (Lexer_process Teacup_lexer ''x ^ y ^ z'') =
     [tok_at Word ''x'' 0, tok_at Infix ''^'' 2, tok_at Word ''y'' 4, tok_at Infix ''^'' 6, tok_at Word ''z'' 8]"
    by code_simp+
  have atoms: "atom (tok_at Word ''x'' 0)" "atom (tok_at Word ''y'' 4)" "atom (tok_at Word ''z'' 8)"
    by (simp_all add: atom_def tok_at_def getPrio_def Teacup_priorities_def)
  have ops: "type (tok_at k s i) = k" "ttext (tok_at k s i) = s" for k s i
    by (simp_all add: tok_at_def)
  have pos: "start (tok_at k s i) = i" "tend (tok_at k s i) = i + length s" for k s i
    by (simp_all add: tok_at_def)
  show ?thesis
    using associativity [of "tok_at Word ''x'' 0" "tok_at Word ''y'' 4" "tok_at Word ''z'' 8"
        "tok_at Infix ''-'' 2" "tok_at Infix ''-'' 6" "''-''"]
      associativity [of "tok_at Word ''x'' 0" "tok_at Word ''y'' 4" "tok_at Word ''z'' 8"
        "tok_at Infix ''^'' 2" "tok_at Infix ''^'' 6" "''^''"]
      lex atoms
    by (simp add: ops pos)
qed

text \<open>The leaf handlers: what \<^verbatim>\<open>eval\<close> does with a bare token.\<close>

lemmas sig_defs = variable_sig_def operator_sig_def if_sig_def sequence_sig_def newline_def
  EU_def inner_def

lemma eval_leaf:
  "eval Teacup_interpreter (Suc n) (Token t) env st =
     (case type t of
        Word \<Rightarrow> resolve env (ttext t) st
      | Infix \<Rightarrow> resolve env (ttext t) st
      | Prefix \<Rightarrow> resolve env (''prefix:'' @ ttext t) st
      | Number \<Rightarrow> (case parseFloat (Some (ttext t)) of Inl e \<Rightarrow> Inl e | Inr v \<Rightarrow> Inr (v, st))
      | Str \<Rightarrow> Inr (VStr (take (length (ttext t) - 2) (drop 1 (ttext t))), st)
      | _ \<Rightarrow> Inl (SyntaxError (''Unknown node type: '' @ kind_name (type t))))"
  by (cases "type t")
    (simp_all add: Teacup_interpreter_def Interpreter_def Teacup_handlers_def extractArgs_def
      matches_def sig_defs variable_handler_def prefix_handler_def number_handler_def
      string_handler_def text_key_def)

lemma parse_single: "Parser_process ps finalize [t] = Inr (Elem (Token t))"
  by (simp add: Parser_process_def next_def order_def finalize_def last_op_def
       truthy_slot_def op_slot_def)

text \<open>
  Claim C8. \<^verbatim>\<open>finalize\<close> maps the handle \<^verbatim>\<open>[null, t, null]\<close> to the token \<open>t\<close> itself; the parse
  of the single token \<open>t\<close> is that bare token; and \<^verbatim>\<open>eval\<close> of the bare token is the leaf
  semantics of its type: the name (for a prefix token, \<^verbatim>\<open>"prefix:"\<close> and the name) resolved in
  the environment, \<^verbatim>\<open>parseFloat\<close> of the text of a number, the text of a string without its
  first and last character.
\<close>

theorem finalizer_collapse:
  "finalize [(Null, Some t)] Null = Inr (Elem (Token t)) \<and>
   Parser_process Teacup_priorities finalize [t] = Inr (Elem (Token t)) \<and>
   (type t = Word \<or> type t = Infix \<longrightarrow>
      eval Teacup_interpreter (Suc n) (Token t) env st = resolve env (ttext t) st) \<and>
   (type t = Prefix \<longrightarrow>
      eval Teacup_interpreter (Suc n) (Token t) env st = resolve env (''prefix:'' @ ttext t) st) \<and>
   (type t = Number \<longrightarrow>
      eval Teacup_interpreter (Suc n) (Token t) env st =
        (case parseFloat (Some (ttext t)) of Inl e \<Rightarrow> Inl e | Inr v \<Rightarrow> Inr (v, st))) \<and>
   (type t = Str \<longrightarrow>
      eval Teacup_interpreter (Suc n) (Token t) env st =
        Inr (VStr (take (length (ttext t) - 2) (drop 1 (ttext t))), st))"
  by (auto simp: eval_leaf parse_single finalize_def truthy_slot_def op_slot_def
      simp del: eval.simps)

theorem finalizer_collapse_witness:
  "Lexer_process Teacup_lexer ''42'' = [tok42] \<and>
   Parser_process Teacup_priorities finalize [tok42] = Inr (Elem (Token tok42)) \<and>
   type tok42 = Number \<and>
   eval Teacup_interpreter (Suc 0) (Token tok42) (Some 0) (root Teacup_interpreter) =
     Inr (VNum 42, root Teacup_interpreter)"
proof -
  have l: "Lexer_process Teacup_lexer ''42'' = [tok42]"
    by code_simp
  have p: "parseFloat (Some (ttext tok42)) = Inr (VNum 42)"
    by code_simp
  have k: "type tok42 = Number"
    by (simp add: tok42_def)
  show ?thesis
    using finalizer_collapse [of tok42 0 "Some 0" "root Teacup_interpreter"] l p k
    by (simp del: eval.simps)
qed

section \<open>Properties of the interpreter\<close>

lemma parse_examples:
  "parse ''true or (1 / 0)'' = Inr (Elem true_or)"
  "parse ''false and (1 / 0)'' = Inr (Elem false_and)"
  "parse ''if 1 == 2 then 5 elif false then 6 end'' =
     Inr (Elem (Node (if_signature 1) (splice if_conds if_thens) if_ops 0 38))"
  by code_simp+

text \<open>
  Claim C7, at the index \<^verbatim>\<open>i\<close> bound by a \<^verbatim>\<open>let\<close>. The handler evaluates the object with
  \<^verbatim>\<open>this.eval(obj)\<close>, without the environment. In \<^verbatim>\<open>x[i, 1]\<close> the index \<^verbatim>\<open>i\<close> is evaluated in the
  environment of the call and the value is 2; in \<^verbatim>\<open>x[i][1]\<close> the inner \<^verbatim>\<open>x[i]\<close> is the object of
  the outer indexing, its handler runs with \<^verbatim>\<open>undefined\<close> for environment, and resolving \<^verbatim>\<open>i\<close>
  there is a \<^verbatim>\<open>TypeError\<close>.
\<close>

theorem index_list_differs_from_nested_index:
  "teacup (20 + k) ''let i = 0 in [[1,2],[3,4]][i, 1] end'' = Inr (VNum 2) \<and>
   teacup (20 + k) ''let i = 0 in [[1,2],[3,4]][i][1] end'' = Inl TypeError"
  using teacup_fuel_mono[OF examples(4), of k] teacup_fuel_mono[OF examples(5), of k]
  by simp

text \<open>The \<^verbatim>\<open>if\<close> handler is the one that \<^verbatim>\<open>eval\<close> finds for an \<^verbatim>\<open>if\<close> signature without \<^verbatim>\<open>else\<close>.\<close>

lemma set_concat_replicate: "set (concat (replicate k s)) \<subseteq> set s"
  by (induction k) auto

lemma length_if_signature: "length (if_signature k) = 19 + 14 * k"
  by (induction k) (auto simp: if_signature_def)

lemma if_sig_if_signature: "if_sig (if_signature k)"
  unfolding if_sig_def length_if_signature
  by (simp add: if_signature_def)

lemma not_sequence_if_signature: "\<not> sequence_sig (if_signature k)"
  using set_concat_replicate[of k "'' elif E then E''"]
  by (auto simp: sequence_sig_def if_signature_def newline_def)

lemma if_signature_neq:
  "''_ for E in E when E do E end _'' \<noteq> if_signature k"
  "''_ for E in E do E end _'' \<noteq> if_signature k"
  "''_ let E in E end _'' \<noteq> if_signature k"
  "''E -> E'' \<noteq> if_signature k"
  by (simp_all add: if_signature_def)

lemma eval_if_node:
  "eval Teacup_interpreter (Suc n) (Node (if_signature k) as os s e) env st =
     if_loop (eval Teacup_interpreter n) env as st"
  by (simp add: Teacup_interpreter_def Interpreter_def Teacup_handlers_def extractArgs_def
      matches_def if_handler_def if_signature_neq if_sig_if_signature not_sequence_if_signature)

lemma if_loop_all_false:
  "length thens = length conds \<Longrightarrow> falsy_chain ev env conds st = Some st' \<Longrightarrow>
   if_loop ev env (splice conds thens) st = Inr (VUndefined, st')"
proof (induction conds arbitrary: thens st)
  case Nil
  then show ?case by simp
next
  case (Cons c cs)
  then obtain t ts where thens: "thens = t # ts" "length ts = length cs"
    by (cases thens) auto
  from Cons.prems(2) obtain v st1 where c: "ev c env st = Inr (v, st1)" "\<not> truthy v"
    "falsy_chain ev env cs st1 = Some st'"
    by (auto split: sum.splits if_splits)
  show ?case
    using Cons.IH[OF thens(2) c(3)] c(1,2) thens(1)
    by (simp add: andThen_def)
qed

text \<open>
  Claim C10. For an \<^verbatim>\<open>if\<close> node without \<^verbatim>\<open>else\<close>, that is with the signature
  \<^verbatim>\<open>_ if E then E( elif E then E)* end _\<close> and the conditions and branches for arguments, when
  every condition evaluates to a false value, \<^verbatim>\<open>eval\<close> returns \<^verbatim>\<open>undefined\<close> and raises nothing.
\<close>

theorem if_without_else_all_false:
  "conds \<noteq> [] \<and> length thens = length conds \<and>
   falsy_chain (eval Teacup_interpreter n) env conds st = Some st' \<longrightarrow>
   eval Teacup_interpreter (Suc n)
     (Node (if_signature (length conds - 1)) (splice conds thens) os s e) env st =
     Inr (VUndefined, st')"
  using if_loop_all_false[of thens conds "eval Teacup_interpreter n" env st st']
  by (simp add: eval_if_node del: eval.simps)

theorem if_without_else_witness:
  "if_conds \<noteq> [] \<and> length if_thens = length if_conds \<and>
   falsy_chain (eval Teacup_interpreter 2) (Some 0) if_conds (root Teacup_interpreter) =
     Some (root Teacup_interpreter) \<and>
   parse ''if 1 == 2 then 5 elif false then 6 end'' =
     Inr (Elem (Node (if_signature 1) (splice if_conds if_thens) if_ops 0 38)) \<and>
   eval Teacup_interpreter 3 (Node (if_signature 1) (splice if_conds if_thens) if_ops 0 38)
     (Some 0) (root Teacup_interpreter) = Inr (VUndefined, root Teacup_interpreter)"
proof -
  have c: "falsy_chain (eval Teacup_interpreter 2) (Some 0) if_conds (root Teacup_interpreter) =
     Some (root Teacup_interpreter)"
    by code_simp
  have l: "if_conds \<noteq> []" "length if_thens = length if_conds" "length if_conds - 1 = 1"
    by (simp_all add: if_conds_def if_thens_def)
  have n: "Suc 2 = 3"
    by simp
  show ?thesis
    using if_without_else_all_false [of if_conds if_thens 2 "Some 0" "root Teacup_interpreter"
        "root Teacup_interpreter" if_ops 0 38] c l parse_examples(3)
    unfolding n by (simp del: eval.simps)
qed

text \<open>Calls of lazy functions.\<close>

lemma eval_or_sig:
  "eval Teacup_interpreter (Suc n) (Node ''E or E'' as os s e) env st =
     runCall (eval Teacup_interpreter n) (Node ''E or E'' as os s e) env st"
  by (simp add: Teacup_interpreter_def Interpreter_def Teacup_handlers_def extractArgs_def
      matches_def operator_handler_def sig_defs)

lemma runCall_lazy:
  "normalizeCall node = Inr (Some (callee, xs)) \<Longrightarrow> ev callee env st = Inr (f, st1) \<Longrightarrow>
   lazy f = Inr True \<Longrightarrow>
   runCall ev node env st = call_lazy ev f (map (\<lambda>x. Thunk x env) xs) st1"
  by (simp add: runCall_def andThen_def)

lemma or_short_circuit:
  "ev a env st = Inr (v, st') \<Longrightarrow> truthy v \<Longrightarrow>
   call_lazy ev (VFun (Builtin Or)) [Thunk a env, Thunk b env] st = Inr (v, st')"
  by (simp add: call_lazy_def force_param_def force_def andThen_def)

lemma and_short_circuit:
  "ev a env st = Inr (v, st') \<Longrightarrow> \<not> truthy v \<Longrightarrow>
   call_lazy ev (VFun (Builtin And)) [Thunk a env, Thunk b env] st = Inr (v, st')"
  by (simp add: call_lazy_def force_param_def force_def andThen_def)

lemma eval_or_node:
  assumes o: "type t = Infix" "ttext t = ''or''"
    and r: "resolve env ''or'' st = Inr (VFun (Builtin Or), st)"
    and a: "eval Teacup_interpreter n a env st = Inr (v, st')" and v: "truthy v"
  shows "eval Teacup_interpreter (Suc n) (Node ''E or E'' [a, b] [t] s e) env st = Inr (v, st')"
proof -
  obtain m where n: "n = Suc m"
    using a by (cases n) auto
  have c: "eval Teacup_interpreter n (Token t) env st = Inr (VFun (Builtin Or), st)"
    unfolding n using o r by (simp add: eval_leaf del: eval.simps)
  have nc: "normalizeCall (Node ''E or E'' [a, b] [t] s e) = Inr (Some (Token t, [a, b]))"
    by (simp add: normalizeCall_def extractArgs_def matches_def call_sig_def EU_def inner_def)
  have "eval Teacup_interpreter (Suc n) (Node ''E or E'' [a, b] [t] s e) env st =
     runCall (eval Teacup_interpreter n) (Node ''E or E'' [a, b] [t] s e) env st"
    by (rule eval_or_sig)
  also have "\<dots> = call_lazy (eval Teacup_interpreter n) (VFun (Builtin Or))
      (map (\<lambda>x. Thunk x env) [a, b]) st"
    using runCall_lazy[of "Node ''E or E'' [a, b] [t] s e" "Token t" "[a, b]"
        "eval Teacup_interpreter n" env st "VFun (Builtin Or)" st] nc c
    by (simp add: lazy_def del: eval.simps)
  also have "\<dots> = Inr (v, st')"
    using or_short_circuit[of "eval Teacup_interpreter n" a env st v st' b] a v
    by (simp del: eval.simps)
  finally show ?thesis .
qed

lemma true_or_example: "teacup (20 + k) ''true or (1 / 0)'' = Inr (VBool True)"
  using teacup_fuel_mono[OF examples(6)] by simp

text \<open>
  Claim C6. When the callee of a call has the \<^verbatim>\<open>lazy\<close> marker, \<^verbatim>\<open>runCall\<close> hands it the
  arguments as thunks, each the argument's node with the environment of the call. An
  argument that is not forced is not evaluated: when the first argument of \<^verbatim>\<open>or\<close> is a true
  value (of \<^verbatim>\<open>and\<close>, a false value), that value and the store after it are the result,
  whatever the second argument is. The program \<^verbatim>\<open>true or (1 / 0)\<close> evaluates to \<^verbatim>\<open>true\<close>,
  with every fuel from 20 on.
\<close>

theorem lazy_arguments_are_thunks:
  "(normalizeCall node = Inr (Some (callee, xs)) \<and> ev callee env st = Inr (f, st1) \<and>
    lazy f = Inr True \<longrightarrow>
      runCall ev node env st = call_lazy ev f (map (\<lambda>x. Thunk x env) xs) st1) \<and>
   (ev a env st = Inr (v, st') \<and> truthy v \<longrightarrow>
      call_lazy ev (VFun (Builtin Or)) [Thunk a env, Thunk b env] st = Inr (v, st')) \<and>
   (ev a2 env st = Inr (v2, st2) \<and> \<not> truthy v2 \<longrightarrow>
      call_lazy ev (VFun (Builtin And)) [Thunk a2 env, Thunk b2 env] st = Inr (v2, st2)) \<and>
   (type t = Infix \<and> ttext t = ''or'' \<and> resolve env ''or'' st = Inr (VFun (Builtin Or), st) \<and>
    eval Teacup_interpreter n a env st = Inr (v, st') \<and> truthy v \<longrightarrow>
      eval Teacup_interpreter (Suc n) (Node ''E or E'' [a, b] [t] s e) env st = Inr (v, st')) \<and>
   teacup (20 + k) ''true or (1 / 0)'' = Inr (VBool True)"
proof (intro conjI impI)
  show "teacup (20 + k) ''true or (1 / 0)'' = Inr (VBool True)"
    by (rule true_or_example)
qed (blast intro: runCall_lazy or_short_circuit and_short_circuit eval_or_node)+

theorem lazy_arguments_witness:
  "parse ''true or (1 / 0)'' = Inr (Elem true_or) \<and>
   normalizeCall true_or = Inr (Some (Token (tok_at Infix ''or'' 5),
      [Token (tok_at Word ''true'' 0), paren_1_by_0 8])) \<and>
   eval Teacup_interpreter 1 (Token (tok_at Infix ''or'' 5)) (Some 0) (root Teacup_interpreter) =
     Inr (VFun (Builtin Or), root Teacup_interpreter) \<and>
   lazy (VFun (Builtin Or)) = Inr True \<and>
   eval Teacup_interpreter 1 (Token (tok_at Word ''true'' 0)) (Some 0) (root Teacup_interpreter) =
     Inr (VBool True, root Teacup_interpreter) \<and>
   truthy (VBool True) \<and>
   eval Teacup_interpreter 1 (Token (tok_at Word ''false'' 0)) (Some 0) (root Teacup_interpreter) =
     Inr (VBool False, root Teacup_interpreter) \<and>
   \<not> truthy (VBool False) \<and>
   runCall (eval Teacup_interpreter 1) true_or (Some 0) (root Teacup_interpreter) =
     call_lazy (eval Teacup_interpreter 1) (VFun (Builtin Or))
       [Thunk (Token (tok_at Word ''true'' 0)) (Some 0), Thunk (paren_1_by_0 8) (Some 0)]
       (root Teacup_interpreter) \<and>
   call_lazy (eval Teacup_interpreter 1) (VFun (Builtin Or))
       [Thunk (Token (tok_at Word ''true'' 0)) (Some 0), Thunk (paren_1_by_0 8) (Some 0)]
       (root Teacup_interpreter) = Inr (VBool True, root Teacup_interpreter) \<and>
   call_lazy (eval Teacup_interpreter 1) (VFun (Builtin And))
       [Thunk (Token (tok_at Word ''false'' 0)) (Some 0), Thunk (paren_1_by_0 10) (Some 0)]
       (root Teacup_interpreter) = Inr (VBool False, root Teacup_interpreter) \<and>
   eval Teacup_interpreter 2 true_or (Some 0) (root Teacup_interpreter) =
     Inr (VBool True, root Teacup_interpreter)"
proof -
  have nc: "normalizeCall true_or = Inr (Some (Token (tok_at Infix ''or'' 5),
      [Token (tok_at Word ''true'' 0), paren_1_by_0 8]))"
    by (simp add: true_or_def normalizeCall_def extractArgs_def matches_def call_sig_def EU_def
        inner_def)
  have ev: "eval Teacup_interpreter 1 (Token (tok_at Infix ''or'' 5)) (Some 0)
       (root Teacup_interpreter) = Inr (VFun (Builtin Or), root Teacup_interpreter)"
    "eval Teacup_interpreter 1 (Token (tok_at Word ''true'' 0)) (Some 0)
       (root Teacup_interpreter) = Inr (VBool True, root Teacup_interpreter)"
    "eval Teacup_interpreter 1 (Token (tok_at Word ''false'' 0)) (Some 0)
       (root Teacup_interpreter) = Inr (VBool False, root Teacup_interpreter)"
    "resolve (Some 0) ''or'' (root Teacup_interpreter) =
       Inr (VFun (Builtin Or), root Teacup_interpreter)"
    by code_simp+
  have t: "type (tok_at Infix ''or'' 5) = Infix" "ttext (tok_at Infix ''or'' 5) = ''or''"
    "lazy (VFun (Builtin Or)) = Inr True" "truthy (VBool True)" "\<not> truthy (VBool False)"
    by (simp_all add: tok_at_def lazy_def truthy_def)
  have n: "Suc 1 = 2"
    by simp
  show ?thesis
    using lazy_arguments_are_thunks [of true_or "Token (tok_at Infix ''or'' 5)"
        "[Token (tok_at Word ''true'' 0), paren_1_by_0 8]" "eval Teacup_interpreter 1" "Some 0"
        "root Teacup_interpreter" "VFun (Builtin Or)" "root Teacup_interpreter"
        "Token (tok_at Word ''true'' 0)" "VBool True" "root Teacup_interpreter" "paren_1_by_0 8"
        "Token (tok_at Word ''false'' 0)" "VBool False" "root Teacup_interpreter"
        "paren_1_by_0 10" "tok_at Infix ''or'' 5" 1 0 15]
      nc ev t parse_examples(1)
    unfolding n true_or_def [symmetric] by (simp add: true_or_def del: eval.simps)
qed

text \<open>
  Claim C4, as stated, at its own program: \<^verbatim>\<open>x + 1\<close> is evaluated in the environment of the
  \<^verbatim>\<open>let\<close>, where \<^verbatim>\<open>x\<close> is not bound, and \<^verbatim>\<open>resolve\<close> throws the \<^verbatim>\<open>ReferenceError\<close>.
\<close>

theorem let_example_counterexample:
  "teacup 20 ''let x = 10, y = x + 1 in y * 2 end'' =
     Inl (ReferenceError ''Undefined variable: 'x'.'')"
  by code_simp

text \<open>The \<^verbatim>\<open>let\<close> handler walks its declarations as the description says.\<close>

lemma parse_let_examples:
  "parse ''let x = 10, y = x + 1 in y * 2 end'' = Inr (Elem let_xy)"
  "parse ''let a = 1, b = 2, c = 3 in c end'' = Inr (Elem let_abc)"
  "parse ''let x = 10, f(n) = n + x in f(1) end'' = Inr (Elem let_xf)"
  by code_simp+

lemma eval_let_sig:
  "eval Teacup_interpreter (Suc n) (Node ''_ let E in E end _'' as os s e) env st =
     let_handler (eval Teacup_interpreter n) (Node ''_ let E in E end _'' as os s e) env as st"
  by (simp add: Teacup_interpreter_def Interpreter_def Teacup_handlers_def extractArgs_def
      matches_def)

lemma foldl_bind_step_Inl: "foldl (bind_step ev parent child) (Inl err) decls = Inl err"
  by (induction decls) (simp_all add: bind_step_def)

lemma let_loop_sequential:
  "let_loop ev env newEnv decls st = sequential_bindings ev env newEnv decls st"
proof (induction decls arbitrary: st)
  case Nil
  then show ?case by (simp add: sequential_bindings_def)
next
  case (Cons d decls)
  obtain target params expr where d: "d = (target, params, expr)"
    by (cases d)
  show ?case
    using Cons.IH
    by (cases params)
      (auto simp: d sequential_bindings_def bind_step_def buildFunction_def foldl_bind_step_Inl
        split: sum.splits)
qed

lemma eval_let_general:
  assumes "getList (Some rawDecls) = Inr ds" and "normalize_all ds = Inr decls"
  shows "eval Teacup_interpreter (Suc n)
      (Node ''_ let E in E end _'' (rawDecls # body # rest) os s e) (Some r) st =
     (case sequential_bindings (eval Teacup_interpreter n) (Some r) (length st) decls
             (st @ [\<lparr>proto = Some r, vars = []\<rparr>]) of
        Inl err \<Rightarrow> Inl err
      | Inr st2 \<Rightarrow> eval Teacup_interpreter n body (Some (length st)) st2)"
  using assms
  by (simp add: eval_let_sig let_handler_def Object_create_def andThen_def let_loop_sequential
      del: eval.simps)

lemma normalizeCall_Token: "normalizeCall (Token x) = Inr None"
  by (cases "type x")
    (simp_all add: normalizeCall_def extractArgs_def matches_def call_sig_def apply_sig_def
      EU_def)

lemma normalizeAssignment_declares:
  "declares d decl \<Longrightarrow> normalizeAssignment d = Inr decl"
proof (induction d decl rule: declares.induct)
  case (1 sig x ex os s e target params expr)
  then show ?case
    by (simp add: normalizeAssignment_def extractArgs_def matches_def normalizeCall_Token)
next
  case (2 sig sig' f ps os' s' e' ex os s e target params expr)
  then show ?case
    by (auto simp: normalizeAssignment_def normalizeCall_def extractArgs_def matches_def
        call_sig_def apply_sig_def EU_def inner_def split: option.splits)
qed simp_all

lemma normalize_all_declares:
  "list_all2 declares ds decls \<Longrightarrow> normalize_all ds = Inr decls"
  by (induction rule: list_all2_induct) (simp_all add: normalizeAssignment_declares)

lemma declares_type: "declares d decl \<Longrightarrow> node_type d = ''E = E''"
  by (induction d decl rule: declares.induct) simp_all

lemma list_groups_commas: "list_groups (concat (replicate j '' , E''))"
  by (induction j) (simp_all add: EU_def)

lemma list_sig_comma_signature: "2 \<le> k \<Longrightarrow> list_sig (comma_signature k)"
proof -
  assume "2 \<le> k"
  then obtain j where k: "k = Suc (Suc j)"
    by (metis Suc_le_D numeral_2_eq_2 Suc_le_mono)
  show ?thesis
    using list_groups_commas[of j]
    by (simp add: k list_sig_def comma_signature_def EU_def)
qed

lemma getList_declarations:
  assumes "ds \<noteq> []" and "list_all2 declares ds decls"
  shows "getList (Some (declarations ds os s e)) = Inr ds"
proof (cases ds)
  case Nil
  then show ?thesis using assms by simp
next
  case (Cons d ds')
  show ?thesis
  proof (cases ds')
    case Nil
    obtain decl where "declares d decl"
      using assms(2) Cons Nil by (auto simp: list_all2_Cons1)
    then have "node_type d = ''E = E''"
      by (rule declares_type)
    then show ?thesis
      using Cons Nil
      by (simp add: declarations_def getList_def extractArgs_def matches_def list_sig_def EU_def
          newline_def)
  next
    case (Cons d' ds'')
    have "list_sig (comma_signature (length ds))"
      using \<open>ds = d # ds'\<close> Cons by (intro list_sig_comma_signature) simp
    then show ?thesis
      using \<open>ds = d # ds'\<close> Cons
      by (simp add: declarations_def getList_def extractArgs_def matches_def)
  qed
qed



lemma let_xy_example:
  "teacup (20 + k) ''let x = 10, y = x + 1 in y * 2 end'' =
     Inl (ReferenceError ''Undefined variable: 'x'.'')"
  using teacup_fuel_mono[OF examples(7)] by simp

text \<open>
  Claim C4, amended. Whatever the list of declarations of a \<^verbatim>\<open>let\<close>, its bindings are made one
  after the other, from left to right, in a fresh environment whose prototype is the
  environment of the \<^verbatim>\<open>let\<close>, and the body is evaluated in that fresh environment. The
  expression of a value binding is evaluated in the parent environment, where the earlier
  bindings of the same \<^verbatim>\<open>let\<close> are not visible; a function binding makes a closure over the
  new environment, in which the function itself and every other binding of the \<^verbatim>\<open>let\<close> are
  visible. This holds of every declaration node that \<^verbatim>\<open>getList\<close> and \<^verbatim>\<open>normalizeAssignment\<close>
  accept, and they accept every non-empty list of value bindings \<^verbatim>\<open>x = e\<close> and function bindings
  \<^verbatim>\<open>f(ps) = e\<close>, of any length and in any mix. In particular
  \<^verbatim>\<open>let x = 10, y = x + 1 in y * 2 end\<close> raises the \<^verbatim>\<open>ReferenceError\<close> for \<^verbatim>\<open>x\<close>, with every fuel
  from 20 on.
\<close>

theorem let_bindings:
  "(getList (Some rawDecls) = Inr ds \<and> normalize_all ds = Inr decls \<longrightarrow>
      eval Teacup_interpreter (Suc n)
        (Node ''_ let E in E end _'' (rawDecls # body # rest) os s e) (Some r) st =
      (case sequential_bindings (eval Teacup_interpreter n) (Some r) (length st) decls
              (st @ [\<lparr>proto = Some r, vars = []\<rparr>]) of
         Inl err \<Rightarrow> Inl err
       | Inr st2 \<Rightarrow> eval Teacup_interpreter n body (Some (length st)) st2)) \<and>
   (ds' \<noteq> [] \<and> list_all2 declares ds' decls' \<longrightarrow>
      eval Teacup_interpreter (Suc n)
        (Node ''_ let E in E end _'' [declarations ds' cos cs ce, body] os s e) (Some r) st =
      (case sequential_bindings (eval Teacup_interpreter n) (Some r) (length st) decls'
              (st @ [\<lparr>proto = Some r, vars = []\<rparr>]) of
         Inl err \<Rightarrow> Inl err
       | Inr st2 \<Rightarrow> eval Teacup_interpreter n body (Some (length st)) st2)) \<and>
   teacup (20 + k) ''let x = 10, y = x + 1 in y * 2 end'' =
     Inl (ReferenceError ''Undefined variable: 'x'.'')"
proof (intro conjI impI)
  assume "getList (Some rawDecls) = Inr ds \<and> normalize_all ds = Inr decls"
  then show "eval Teacup_interpreter (Suc n)
        (Node ''_ let E in E end _'' (rawDecls # body # rest) os s e) (Some r) st =
      (case sequential_bindings (eval Teacup_interpreter n) (Some r) (length st) decls
              (st @ [\<lparr>proto = Some r, vars = []\<rparr>]) of
         Inl err \<Rightarrow> Inl err
       | Inr st2 \<Rightarrow> eval Teacup_interpreter n body (Some (length st)) st2)"
    using eval_let_general by blast
next
  assume h: "ds' \<noteq> [] \<and> list_all2 declares ds' decls'"
  then have "getList (Some (declarations ds' cos cs ce)) = Inr ds'" "normalize_all ds' = Inr decls'"
    using getList_declarations normalize_all_declares by blast+
  then show "eval Teacup_interpreter (Suc n)
        (Node ''_ let E in E end _'' [declarations ds' cos cs ce, body] os s e) (Some r) st =
      (case sequential_bindings (eval Teacup_interpreter n) (Some r) (length st) decls'
              (st @ [\<lparr>proto = Some r, vars = []\<rparr>]) of
         Inl err \<Rightarrow> Inl err
       | Inr st2 \<Rightarrow> eval Teacup_interpreter n body (Some (length st)) st2)"
    by (rule eval_let_general)
next
  show "teacup (20 + k) ''let x = 10, y = x + 1 in y * 2 end'' =
     Inl (ReferenceError ''Undefined variable: 'x'.'')"
    by (rule let_xy_example)
qed

theorem let_bindings_witness:
  "parse ''let x = 10, y = x + 1 in y * 2 end'' = Inr (Elem let_xy) \<and>
   decl_xy \<noteq> [] \<and> list_all2 declares decl_xy norm_xy \<and>
   getList (Some (declarations decl_xy [tok_at Infix '','' 10] 4 21)) = Inr decl_xy \<and>
   normalize_all decl_xy = Inr norm_xy \<and>
   eval Teacup_interpreter 4 let_xy (Some 0) (root Teacup_interpreter) =
     Inl (ReferenceError ''Undefined variable: 'x'.'') \<and>
   parse ''let a = 1, b = 2, c = 3 in c end'' = Inr (Elem let_abc) \<and>
   decl_abc \<noteq> [] \<and> list_all2 declares decl_abc norm_abc \<and>
   map_sum id fst (eval Teacup_interpreter 4 let_abc (Some 0) (root Teacup_interpreter)) =
     Inr (VNum 3) \<and>
   parse ''let x = 10, f(n) = n + x in f(1) end'' = Inr (Elem let_xf) \<and>
   decl_xf \<noteq> [] \<and> list_all2 declares decl_xf norm_xf \<and>
   map_sum id fst (eval Teacup_interpreter 6 let_xf (Some 0) (root Teacup_interpreter)) =
     Inr (VNum 11)"
proof -
  have d: "decl_xy \<noteq> []" "list_all2 declares decl_xy norm_xy"
    "decl_abc \<noteq> []" "list_all2 declares decl_abc norm_abc"
    "decl_xf \<noteq> []" "list_all2 declares decl_xf norm_xf"
    "getList (Some (declarations decl_xy [tok_at Infix '','' 10] 4 21)) = Inr decl_xy"
    "normalize_all decl_xy = Inr norm_xy"
    by code_simp+
  have n: "Suc 3 = 4" "Suc 5 = 6"
    by simp_all
  have v: "(case sequential_bindings (eval Teacup_interpreter 3) (Some 0)
               (length (root Teacup_interpreter)) norm_xy
               (root Teacup_interpreter @ [\<lparr>proto = Some 0, vars = []\<rparr>]) of
         Inl err \<Rightarrow> Inl err
       | Inr st2 \<Rightarrow>
           eval Teacup_interpreter 3 body_xy (Some (length (root Teacup_interpreter))) st2) =
      Inl (ReferenceError ''Undefined variable: 'x'.'')"
    "map_sum id fst
       (case sequential_bindings (eval Teacup_interpreter 3) (Some 0)
               (length (root Teacup_interpreter)) norm_abc
               (root Teacup_interpreter @ [\<lparr>proto = Some 0, vars = []\<rparr>]) of
         Inl err \<Rightarrow> Inl err
       | Inr st2 \<Rightarrow>
           eval Teacup_interpreter 3 (Token (tok_at Word ''c'' 27))
             (Some (length (root Teacup_interpreter))) st2) = Inr (VNum 3)"
    "map_sum id fst
       (case sequential_bindings (eval Teacup_interpreter 5) (Some 0)
               (length (root Teacup_interpreter)) norm_xf
               (root Teacup_interpreter @ [\<lparr>proto = Some 0, vars = []\<rparr>]) of
         Inl err \<Rightarrow> Inl err
       | Inr st2 \<Rightarrow>
           eval Teacup_interpreter 5
             (Node ''E ( E ) _'' [Token (tok_at Word ''f'' 28), Token (tok_at Number ''1'' 30)]
                [tok_at Open ''('' 29, tok_at Close '')'' 31] 28 32)
             (Some (length (root Teacup_interpreter))) st2) = Inr (VNum 11)"
    by code_simp+
  show ?thesis
    using let_bindings [of "declarations decl_xy [tok_at Infix '','' 10] 4 21" decl_xy norm_xy 3
        body_xy "[]" "[tok_at Open ''let'' 0, tok_at Middle ''in'' 22, tok_at Close ''end'' 31]"
        0 34 0 "root Teacup_interpreter" decl_xy norm_xy "[tok_at Infix '','' 10]" 4 21]
      let_bindings [of _ _ _ 3 "Token (tok_at Word ''c'' 27)" _
        "[tok_at Open ''let'' 0, tok_at Middle ''in'' 24, tok_at Close ''end'' 29]"
        0 32 0 "root Teacup_interpreter" decl_abc norm_abc
        "[tok_at Infix '','' 9, tok_at Infix '','' 16]" 4 23]
      let_bindings [of _ _ _ 5
        "Node ''E ( E ) _'' [Token (tok_at Word ''f'' 28), Token (tok_at Number ''1'' 30)]
                [tok_at Open ''('' 29, tok_at Close '')'' 31] 28 32" _
        "[tok_at Open ''let'' 0, tok_at Middle ''in'' 25, tok_at Close ''end'' 33]"
        0 36 0 "root Teacup_interpreter" decl_xf norm_xf "[tok_at Infix '','' 10]" 4 24]
      d v parse_let_examples
    unfolding n by (simp add: let_xy_def let_abc_def let_xf_def del: eval.simps)
qed
end
